theory Spec2Isabelle
  imports Complex_Main "HOL-Library.Sublist"
begin

section \<open>JavaScript values\<close>

text \<open>
  A number of the ledger is modelled as an exact rational. A JavaScript number is a
  double: the source rounds every product, quotient and sum to 53 significant bits, which
  the rationals do not, so a property proved of the ledger is stated where that rounding
  cannot change it. A property of a transaction that holds no number, because it is
  \<^verbatim>\<open>undefined\<close> or because it is \<^verbatim>\<open>NaN\<close>, is \<open>None\<close>: the operations the
  Transaction model applies (truth value, \<^verbatim>\<open>||\<close>, arithmetic, comparison,
  \<^verbatim>\<open>isUndefined\<close> followed by \<^verbatim>\<open>Math.round\<close>) give the same result on both. The
  rationals have no \<^verbatim>\<open>Infinity\<close>: the places where the source divides by zero are
  branches of their own.
\<close>

type_synonym number = rat

text \<open>\<^verbatim>\<open>Math.round(x)\<close>: the nearest integer, a tie going up.\<close>

definition Math_round :: "number \<Rightarrow> number" where
  "Math_round x = of_int \<lfloor>x + 1 / 2\<rfloor>"

definition Math_abs :: "number \<Rightarrow> number" where
  "Math_abs x = \<bar>x\<bar>"

text \<open>\<^verbatim>\<open>x || d\<close>: \<^verbatim>\<open>undefined\<close>, \<^verbatim>\<open>NaN\<close> and \<^verbatim>\<open>0\<close> are falsy.\<close>

definition or_else :: "number option \<Rightarrow> number \<Rightarrow> number" where
  "or_else x d = (case x of None \<Rightarrow> d | Some v \<Rightarrow> if v = 0 then d else v)"

text \<open>\<^verbatim>\<open>!x\<close> on a property that may hold no number.\<close>

definition falsy :: "number option \<Rightarrow> bool" where
  "falsy x = (case x of None \<Rightarrow> True | Some v \<Rightarrow> v = 0)"

text \<open>
  Modelled from the spec: \<^verbatim>\<open>toNegative\<close> of \<^verbatim>\<open>lib/math\<close> is not among the sources. The
  spec stores fees as negative numbers by convention; the function turns a positive number
  into its negation and leaves every other number as it is.
\<close>

definition toNegative :: "number \<Rightarrow> number" where
  "toNegative n = (if n > 0 then - n else n)"

text \<open>
  The errors the modelled functions throw. \<open>Error\<close> is JavaScript's plain \<^verbatim>\<open>Error\<close>
  with its message, \<open>TypeError\<close> the engine's error on reading a property of
  \<^verbatim>\<open>null\<close>; the others are the classes of \<^verbatim>\<open>graphql/errors\<close> the sources import.
  \<open>NonFiniteNumber\<close> is not an exception of the source: it marks the inputs on which
  the source divides a number that is not zero by zero and goes on with \<^verbatim>\<open>Infinity\<close>, a
  value the rational model of numbers does not have.
\<close>

datatype error =
    Error string
  | TypeError
  | Unauthorized string
  | ValidationFailed string
  | NotFound string
  | BadRequest string
  | FeatureNotAllowedForUser
  | NonFiniteNumber

section \<open>The Transaction model\<close>

datatype TransactionTypes = CREDIT | DEBIT

text \<open>The JSON payload \<^verbatim>\<open>data\<close> of a transaction: the keys the model reads or writes.\<close>

record transaction_data =
  isFeesOnTop :: bool
  oppositeTransactionCurrencyFxRate :: "number option"
  hostToPlatformFxRate :: "number option"

text \<open>
  The attributes of \<^verbatim>\<open>Sequelize.define('Transaction', ...)\<close>. \<open>row_id\<close> is the
  primary key \<^verbatim>\<open>id\<close>, set when the row is created.
\<close>

record transaction =
  row_id :: "nat option"
  type :: "TransactionTypes option"
  description :: "string option"
  amount :: number
  currency :: string
  CreatedByUserId :: "nat option"
  FromCollectiveId :: "nat option"
  CollectiveId :: "nat option"
  HostCollectiveId :: "nat option"
  OrderId :: "nat option"
  ExpenseId :: "nat option"
  hostCurrency :: string
  hostCurrencyFxRate :: "number option"
  amountInHostCurrency :: "number option"
  platformFeeInHostCurrency :: "number option"
  hostFeeInHostCurrency :: "number option"
  paymentProcessorFeeInHostCurrency :: "number option"
  taxAmount :: "number option"
  netAmountInCollectiveCurrency :: "number option"
  data :: "transaction_data option"
  TransactionGroup :: "string option"
  RefundTransactionId :: "nat option"
  createdAt :: "nat option"

text \<open>The attributes of a collective (an account) that \<^verbatim>\<open>createDoubleEntry\<close> reads.\<close>

record collective =
  isActive :: bool
  collective_currency :: string
  collective_HostCollectiveId :: "nat option"

text \<open>
  What the Transaction model calls outside itself: \<^verbatim>\<open>models.Collective.findByPk\<close>
  (a lookup in the table of collectives; no row for \<^verbatim>\<open>null\<close>) and \<^verbatim>\<open>getFxRate\<close> of
  \<^verbatim>\<open>lib/currency\<close> (source currency, target currency, date).
\<close>

record ledger_env =
  collectives :: "nat \<rightharpoonup> collective"
  getFxRate :: "string \<Rightarrow> string \<Rightarrow> nat option \<Rightarrow> number"

definition findByPk :: "ledger_env \<Rightarrow> nat option \<Rightarrow> collective option" where
  "findByPk env pk = (case pk of None \<Rightarrow> None | Some i \<Rightarrow> collectives env i)"

text \<open>
  \<^verbatim>\<open>Transaction.create\<close>: the ORM's insert. The table is the list of its rows in the order
  of their creation; the new row gets the next primary key and is returned.
\<close>

definition Transaction_create :: "transaction list \<Rightarrow> transaction \<Rightarrow> transaction list \<times> transaction" where
  "Transaction_create rows t =
     (let r = t\<lparr>row_id := Some (Suc (length rows))\<rparr> in (rows @ [r], r))"

text \<open>\<^verbatim>\<open>Promise.mapSeries(transactions, t => Transaction.create(t))\<close>: one after the other.\<close>

fun mapSeries_create :: "transaction list \<Rightarrow> transaction list \<Rightarrow> transaction list \<times> transaction list" where
  "mapSeries_create rows [] = (rows, [])"
| "mapSeries_create rows (t # ts) =
     (case Transaction_create rows t of
        (rows', r) \<Rightarrow> (case mapSeries_create rows' ts of (rows'', rs) \<Rightarrow> (rows'', r # rs)))"

subsection \<open>createDoubleEntry\<close>

text \<open>
  Lines 404 to 412: the fields \<^verbatim>\<open>createDoubleEntry\<close> sets on the transaction it is
  given (the primary entry). \<open>uuid\<close> is the value \<^verbatim>\<open>uuid()\<close> returns.
\<close>

definition primaryTransaction :: "string \<Rightarrow> transaction \<Rightarrow> transaction" where
  "primaryTransaction uuid transaction =
     transaction\<lparr>
       type := Some (if amount transaction > 0 then CREDIT else DEBIT),
       netAmountInCollectiveCurrency :=
         Some (or_else (netAmountInCollectiveCurrency transaction) (amount transaction)),
       TransactionGroup := Some uuid,
       hostCurrencyFxRate := Some (or_else (hostCurrencyFxRate transaction) 1),
       amountInHostCurrency := map_option Math_round (amountInHostCurrency transaction)\<rparr>"

text \<open>
  Lines 417 to 448: the opposite transaction, from the transaction as lines 404 to 412
  left it and the collective \<^verbatim>\<open>FromCollectiveId\<close> names. \<open>net\<close> and \<open>rate\<close> are
  the numbers lines 405 and 407 stored in \<^verbatim>\<open>netAmountInCollectiveCurrency\<close> and
  \<^verbatim>\<open>hostCurrencyFxRate\<close>.
\<close>

definition oppositeTransaction ::
  "ledger_env \<Rightarrow> collective \<Rightarrow> number \<Rightarrow> number \<Rightarrow> transaction \<Rightarrow> transaction" where
  "oppositeTransaction env fromCollective net rate transaction =
     (let opposite = transaction\<lparr>
            type := Some (if - amount transaction > 0 then CREDIT else DEBIT),
            FromCollectiveId := CollectiveId transaction,
            CollectiveId := FromCollectiveId transaction,
            amountInHostCurrency := Some (Math_round (- net * rate)),
            hostFeeInHostCurrency := hostFeeInHostCurrency transaction,
            platformFeeInHostCurrency := platformFeeInHostCurrency transaction,
            paymentProcessorFeeInHostCurrency := paymentProcessorFeeInHostCurrency transaction\<rparr>
      in if \<not> isActive fromCollective then
           opposite\<lparr>
             HostCollectiveId := None,
             amount := - net,
             netAmountInCollectiveCurrency := Some (- amount transaction)\<rparr>
         else
           (let oppositeTransactionCurrencyFxRate =
                  getFxRate env (currency transaction) (collective_currency fromCollective)
                    (createdAt transaction)
            in opposite\<lparr>
                 HostCollectiveId := collective_HostCollectiveId fromCollective,
                 currency := collective_currency fromCollective,
                 amount := - Math_round (net * oppositeTransactionCurrencyFxRate),
                 netAmountInCollectiveCurrency :=
                   Some (- Math_round (amount transaction * oppositeTransactionCurrencyFxRate)),
                 data := Some
                   ((case data transaction of
                       None \<Rightarrow> \<lparr>isFeesOnTop = False, oppositeTransactionCurrencyFxRate = None,
                                 hostToPlatformFxRate = None\<rparr>
                     | Some d \<Rightarrow> d)
                    \<lparr>oppositeTransactionCurrencyFxRate := Some oppositeTransactionCurrencyFxRate\<rparr>)\<rparr>))"

text \<open>
  \<^verbatim>\<open>Transaction.createDoubleEntry\<close>. Reading \<^verbatim>\<open>fromCollective.isActive\<close> throws a
  \<^verbatim>\<open>TypeError\<close> when \<^verbatim>\<open>findByPk\<close> found no collective. The result is the table after
  the two inserts and the created row \<^verbatim>\<open>results[index]\<close>.
\<close>

definition createDoubleEntry ::
  "ledger_env \<Rightarrow> string \<Rightarrow> transaction list \<Rightarrow> transaction \<Rightarrow> error + (transaction list \<times> transaction)" where
  "createDoubleEntry env uuid rows transaction0 =
     (let transaction = primaryTransaction uuid transaction0;
          net = or_else (netAmountInCollectiveCurrency transaction0) (amount transaction0);
          rate = or_else (hostCurrencyFxRate transaction0) 1
      in case findByPk env (FromCollectiveId transaction) of
        None \<Rightarrow> Inl TypeError
      | Some fromCollective \<Rightarrow>
          (let opposite = oppositeTransaction env fromCollective net rate transaction;
               (index, transactions) =
                 (if amount transaction < 0 then (0, [transaction, opposite])
                  else (1, [opposite, transaction]))
           in case mapSeries_create rows transactions of
                (rows', results) \<Rightarrow> Inr (rows', results ! index)))"

subsection \<open>createFeesOnTopTransaction\<close>

text \<open>
  Modelled from the spec: the constant \<^verbatim>\<open>FEES_ON_TOP_TRANSACTION_PROPERTIES\<close> of
  \<^verbatim>\<open>constants/transactions\<close> is not among the sources. The spec builds the donation
  entry on the platform's settlement account, in its fixed settlement currency; the
  source reads the key \<^verbatim>\<open>currency\<close> of the constant.
\<close>

record fees_on_top_properties =
  platform_CollectiveId :: nat
  platform_HostCollectiveId :: nat
  platform_hostCurrency :: string
  platform_currency :: string

text \<open>
  Lines 475 to 480: the share of the payment processor fee that goes with the donation,
  \<^verbatim>\<open>toNegative(Math.round(processorFee * Math.abs(fee / hostAmount)))\<close>. It is \<^verbatim>\<open>NaN\<close>
  when one of the two properties holds no number, and when the amount in host currency
  and the payment processor fee are both zero (zero times \<^verbatim>\<open>Infinity\<close>).
\<close>

definition donationProcessorFee ::
  "number \<Rightarrow> number option \<Rightarrow> number option \<Rightarrow> number option" where
  "donationProcessorFee fee hostAmount processorFee =
     (case (hostAmount, processorFee) of
        (Some h, Some p) \<Rightarrow>
          if h = 0 then None
          else Some (toNegative (Math_round (p * Math_abs (fee / h))))
      | _ \<Rightarrow> None)"

text \<open>
  Lines 482 to 503: \<^verbatim>\<open>defaultsDeep({}, FEES_ON_TOP_TRANSACTION_PROPERTIES, {...}, transaction)\<close>.
  A property comes from the first source that defines it, and \<^verbatim>\<open>data\<close> is merged key by
  key. \<open>fee\<close> is the transaction's platform fee and \<open>processorFee\<close> the share of the
  payment processor fee line 478 computed.
\<close>

definition donationTransaction ::
  "ledger_env \<Rightarrow> fees_on_top_properties \<Rightarrow> number \<Rightarrow> number option \<Rightarrow> transaction \<Rightarrow> transaction" where
  "donationTransaction env props fee processorFee transaction =
     (let platformCurrencyFxRate =
            getFxRate env (currency transaction) (platform_currency props) None
      in transaction\<lparr>
           CollectiveId := Some (platform_CollectiveId props),
           HostCollectiveId := Some (platform_HostCollectiveId props),
           hostCurrency := platform_hostCurrency props,
           currency := platform_currency props,
           description := Some ''Financial contribution to Open Collective'',
           amount := Math_round (Math_abs fee * platformCurrencyFxRate),
           amountInHostCurrency := Some (Math_round (Math_abs fee * platformCurrencyFxRate)),
           platformFeeInHostCurrency := Some 0,
           hostFeeInHostCurrency := Some 0,
           paymentProcessorFeeInHostCurrency :=
             map_option (\<lambda>p. Math_round (p * platformCurrencyFxRate)) processorFee,
           netAmountInCollectiveCurrency :=
             map_option (\<lambda>p. Math_round ((Math_abs fee + p) * platformCurrencyFxRate))
               processorFee,
           hostCurrencyFxRate := Some 1,
           data := Some
             ((case data transaction of
                 None \<Rightarrow> \<lparr>isFeesOnTop = False, oppositeTransactionCurrencyFxRate = None,
                           hostToPlatformFxRate = None\<rparr>
               | Some d \<Rightarrow> d)
              \<lparr>hostToPlatformFxRate :=
                 Some (getFxRate env (hostCurrency transaction) (platform_currency props) None)\<rparr>)\<rparr>)"

text \<open>\<^verbatim>\<open>transaction.data?.isFeesOnTop\<close>: the flag of a fee on top.\<close>

definition hasFeesOnTop :: "transaction \<Rightarrow> bool" where
  "hasFeesOnTop transaction = (case data transaction of None \<Rightarrow> False | Some d \<Rightarrow> isFeesOnTop d)"

text \<open>
  Lines 508 to 513: the transaction after the fee has been taken out of it. A difference
  or a sum with a property that holds no number is \<^verbatim>\<open>NaN\<close>.
\<close>

definition withoutPlatformFee :: "number \<Rightarrow> number option \<Rightarrow> transaction \<Rightarrow> transaction" where
  "withoutPlatformFee fee processorFee transaction =
     transaction\<lparr>
       paymentProcessorFeeInHostCurrency :=
         (case (paymentProcessorFeeInHostCurrency transaction, processorFee) of
            (Some p, Some q) \<Rightarrow> Some (p - q)
          | _ \<Rightarrow> None),
       amountInHostCurrency := map_option (\<lambda>h. h + fee) (amountInHostCurrency transaction),
       amount := amount transaction + fee / or_else (hostCurrencyFxRate transaction) 1,
       platformFeeInHostCurrency := Some 0\<rparr>"

text \<open>
  \<^verbatim>\<open>Transaction.createFeesOnTopTransaction\<close>. The source changes the transaction it is
  given in place, so the result holds the table, the transaction object as the call left
  it, and the value returned: \<open>None\<close> for the \<^verbatim>\<open>return;\<close> of line 472 (which returns
  \<^verbatim>\<open>undefined\<close>), the changed transaction for line 515. With an amount in host currency
  of zero and a payment processor fee that is a number other than zero, the share of
  line 478 is infinite.
\<close>

definition createFeesOnTopTransaction ::
  "ledger_env \<Rightarrow> fees_on_top_properties \<Rightarrow> string \<Rightarrow> transaction list \<Rightarrow> transaction \<Rightarrow>
     error + (transaction list \<times> transaction \<times> transaction option)" where
  "createFeesOnTopTransaction env props uuid rows transaction =
     (if \<not> hasFeesOnTop transaction then
        Inl (Error ''This transaction does not have fees on top'')
      else if falsy (platformFeeInHostCurrency transaction) then
        Inr (rows, transaction, None)
      else
        (case platformFeeInHostCurrency transaction of
           None \<Rightarrow> Inr (rows, transaction, None)
         | Some fee \<Rightarrow>
             if amountInHostCurrency transaction = Some 0
                \<and> \<not> falsy (paymentProcessorFeeInHostCurrency transaction) then
               Inl NonFiniteNumber
             else
               (let paymentProcessorFeeInHostCurrency' =
                      donationProcessorFee fee (amountInHostCurrency transaction)
                        (paymentProcessorFeeInHostCurrency transaction)
                in case createDoubleEntry env uuid rows
                          (donationTransaction env props fee paymentProcessorFeeInHostCurrency'
                             transaction) of
                     Inl e \<Rightarrow> Inl e
                   | Inr (rows', donation) \<Rightarrow>
                       (let transaction' =
                              withoutPlatformFee fee paymentProcessorFeeInHostCurrency' transaction
                        in Inr (rows', transaction', Some transaction')))))"

section \<open>Expenses\<close>

text \<open>
  Modelled from the spec: \<^verbatim>\<open>constants/expense_status\<close> and \<^verbatim>\<open>models/PayoutMethod\<close>
  are not among the sources. The statuses are the five the spec lists, which are the five
  the sources name; the value of a status is its name. The payout method types are the
  three the sources name and \<open>OTHER\<close> for every other one.
\<close>

datatype expense_status = PENDING | APPROVED | REJECTED | PROCESSING | PAID

fun status_name :: "expense_status \<Rightarrow> string" where
  "status_name PENDING = ''PENDING''"
| "status_name APPROVED = ''APPROVED''"
| "status_name REJECTED = ''REJECTED''"
| "status_name PROCESSING = ''PROCESSING''"
| "status_name PAID = ''PAID''"

text \<open>\<^verbatim>\<open>Object.keys(statuses).indexOf(status)\<close>: the status a string names, if any.\<close>

definition status_of_name :: "string \<Rightarrow> expense_status option" where
  "status_of_name n =
     (if n = ''PENDING'' then Some PENDING
      else if n = ''APPROVED'' then Some APPROVED
      else if n = ''REJECTED'' then Some REJECTED
      else if n = ''PROCESSING'' then Some PROCESSING
      else if n = ''PAID'' then Some PAID
      else None)"

datatype PayoutMethodTypes = PAYPAL | BANK_ACCOUNT | ACCOUNT_BALANCE | OTHER

text \<open>
  A template literal prints a whole number in decimal (below \<open>10 ^ 21\<close>; from there on
  JavaScript prints an exponent, which the model does not).
\<close>

fun digits :: "nat \<Rightarrow> string" where
  "digits n =
     (if n < 10 then [''0123456789'' ! n]
      else digits (n div 10) @ [''0123456789'' ! (n mod 10)])"

declare digits.simps [simp del]

definition Number_toString :: "int \<Rightarrow> string" where
  "Number_toString i = (if i < 0 then CHR ''-'' # digits (nat (- i)) else digits (nat i))"

subsection \<open>Items\<close>




text \<open>
  The amounts of an expense and of its items are whole numbers of cents, held in doubles.
  The sum of two whole doubles is the double nearest to their exact sum: the sum itself
  below \<open>2 ^ 53\<close>, and beyond that the sum rounded to 53 significant bits, a tie going
  to the even one, or an infinity from \<open>2 ^ 1024\<close> on.
\<close>

datatype total = Finite int | PlusInfinity | MinusInfinity










subsection \<open>The expense workflow\<close>

text \<open>An account as an expense includes it (\<^verbatim>\<open>expense.collective\<close>, \<^verbatim>\<open>expense.fromCollective\<close>).\<close>

record account =
  account_id :: nat
  account_currency :: string

record expense =
  expense_id :: nat
  status :: expense_status
  expense_amount :: int
  collective :: account
  fromCollective :: account
  UserId :: nat
  lastEditedById :: "nat option"
  legacyPayoutMethod :: string

record payout_method =
  payout_type :: PayoutMethodTypes
  payout_email :: string

text \<open>The host's PayPal payment method (\<^verbatim>\<open>host.getPaymentMethod({ service: 'paypal' })\<close>).\<close>

record payment_method =
  payment_name :: string
  payment_token :: string

text \<open>\<^verbatim>\<open>req\<close>: the logged-in user, by id, if any.\<close>

record request =
  remoteUser :: "nat option"

text \<open>The arguments of \<^verbatim>\<open>payExpense\<close>; the fees are \<^verbatim>\<open>omit(args, ['id', 'forceManual'])\<close>.\<close>

record pay_args =
  args_id :: nat
  forceManual :: bool
  paymentProcessorFeeInCollectiveCurrency :: "number option"
  hostFeeInCollectiveCurrency :: "number option"
  platformFeeInCollectiveCurrency :: "number option"

record fees_in_host_currency =
  fees_paymentProcessorFeeInHostCurrency :: number
  fees_hostFeeInHostCurrency :: number
  fees_platformFeeInHostCurrency :: number

datatype activity =
    COLLECTIVE_EXPENSE_APPROVED
  | COLLECTIVE_EXPENSE_REJECTED
  | COLLECTIVE_EXPENSE_UNAPPROVED
  | COLLECTIVE_EXPENSE_PAID
  | COLLECTIVE_EXPENSE_PROCESSING
  | COLLECTIVE_EXPENSE_MARKED_AS_UNPAID

text \<open>
  The database as the workflow sees it: the table of expenses, the ledger (the rows of
  the table of transactions in the order of their creation) and the activities created,
  each with the id of its expense.
\<close>

record state =
  expenses :: "nat \<rightharpoonup> expense"
  ledger :: "transaction list"
  activities :: "(activity \<times> nat) list"

text \<open>
  What the workflow calls outside the sources: the permission checks of
  \<^verbatim>\<open>lib/user-permissions\<close> and \<^verbatim>\<open>graphql/common/expenses\<close>, the methods of the
  Collective and Expense models, \<^verbatim>\<open>formatCurrency\<close>, \<^verbatim>\<open>floatAmountToCents\<close>, the payment
  providers, \<^verbatim>\<open>createFromPaidExpense\<close> of \<^verbatim>\<open>lib/transactions\<close> and the refund functions
  of \<^verbatim>\<open>lib/payments\<close>. A call that can throw returns the message of its error on the
  left; a call that writes to the ledger takes the ledger and returns it.
  \<open>divide_double\<close> is the quotient of two doubles as the engine rounds it (line 640).
\<close>

record expense_env = ledger_env +
  canUseFeature :: "nat \<Rightarrow> bool"
  canUpdateExpenseStatus :: "request \<Rightarrow> expense \<Rightarrow> bool"
  canPayExpense :: "request \<Rightarrow> expense \<Rightarrow> bool"
  canMarkAsUnpaid :: "request \<Rightarrow> expense \<Rightarrow> bool"
  getHostCollective :: "account \<Rightarrow> account option"
  getBalance :: "transaction list \<Rightarrow> account \<Rightarrow> int"
  formatCurrency :: "number \<Rightarrow> string \<Rightarrow> string"
  getPayoutMethod :: "expense \<Rightarrow> payout_method option"
  getPayoutMethodTypeFromLegacy :: "expense \<Rightarrow> PayoutMethodTypes"
  getConnectedAccounts :: "account \<Rightarrow> nat option"
  getTemporaryQuote :: "nat \<Rightarrow> payout_method option \<Rightarrow> expense \<Rightarrow> string + number"
  floatAmountToCents :: "number \<Rightarrow> number"
  divide_double :: "number \<Rightarrow> number \<Rightarrow> number"
  paypal_fees :: "int \<Rightarrow> string \<Rightarrow> account \<Rightarrow> string + number"
  getPaymentMethod :: "account \<Rightarrow> payment_method option"
  paypal_pay :: "account \<Rightarrow> expense \<Rightarrow> string \<Rightarrow> string \<Rightarrow> string + string"
  updateBalance :: "payment_method \<Rightarrow> string option"
  handleTransferwisePayoutsLimit :: "account \<Rightarrow> string option"
  transferwise_payExpense :: "nat \<Rightarrow> payout_method option \<Rightarrow> expense \<Rightarrow> string + string"
  createTransactionFromPaidExpense ::
    "account \<Rightarrow> payment_method option \<Rightarrow> expense \<Rightarrow> string option \<Rightarrow> nat \<Rightarrow>
       fees_in_host_currency \<Rightarrow> string option \<Rightarrow> transaction list \<Rightarrow>
       transaction list \<times> string option"
  createRefundTransaction ::
    "transaction option \<Rightarrow> number option \<Rightarrow> nat \<Rightarrow> transaction list \<Rightarrow>
       transaction list \<times> (string + transaction)"
  associateTransactionRefundId ::
    "transaction option \<Rightarrow> transaction \<Rightarrow> transaction list \<Rightarrow> transaction list \<times> string option"

text \<open>\<^verbatim>\<open>expense.update({ status, lastEditedById })\<close>: writes the row and returns it.\<close>

definition expense_update ::
  "state \<Rightarrow> expense \<Rightarrow> expense_status \<Rightarrow> nat \<Rightarrow> state \<times> expense" where
  "expense_update s expense st userId =
     (let updatedExpense = expense\<lparr>status := st, lastEditedById := Some userId\<rparr>
      in (s\<lparr>expenses := (expenses s)(expense_id expense \<mapsto> updatedExpense)\<rparr>, updatedExpense))"

text \<open>
  Modelled from the spec: \<^verbatim>\<open>setPaid\<close> and \<^verbatim>\<open>setProcessing\<close> of the Expense model are not
  among the sources. The spec moves the expense to \<open>PAID\<close>, or to \<open>PROCESSING\<close> for a
  bank transfer; as \<^verbatim>\<open>update\<close> does, they record the user.
\<close>

definition setPaid :: "state \<Rightarrow> expense \<Rightarrow> nat \<Rightarrow> state \<times> expense" where
  "setPaid s expense userId = expense_update s expense PAID userId"

definition setProcessing :: "state \<Rightarrow> expense \<Rightarrow> nat \<Rightarrow> state \<times> expense" where
  "setProcessing s expense userId = expense_update s expense PROCESSING userId"

text \<open>\<^verbatim>\<open>expense.createActivity(type, remoteUser)\<close>: one more activity.\<close>

definition createActivity :: "state \<Rightarrow> expense \<Rightarrow> activity \<Rightarrow> state" where
  "createActivity s expense a = s\<lparr>activities := activities s @ [(a, expense_id expense)]\<rparr>"

subsubsection \<open>updateExpenseStatus\<close>

text \<open>
  Every function of the workflow returns the state it leaves behind with its result: an
  exception does not undo the writes made before it.
\<close>

definition updateExpenseStatus ::
  "expense_env \<Rightarrow> state \<Rightarrow> request \<Rightarrow> nat \<Rightarrow> string \<Rightarrow> state \<times> (error + expense)" where
  "updateExpenseStatus env s req expenseId status_arg =
     (case remoteUser req of
        None \<Rightarrow> (s, Inl (Unauthorized ''You need to be logged in to update the status of an expense''))
      | Some user \<Rightarrow>
          if \<not> canUseFeature env user then (s, Inl FeatureNotAllowedForUser)
          else
            (case status_of_name status_arg of
               None \<Rightarrow> (s, Inl (ValidationFailed ''Invalid status, status must be one of ''))
             | Some new_status \<Rightarrow>
                 (case expenses s expenseId of
                    None \<Rightarrow> (s, Inl (Unauthorized ''Expense not found''))
                  | Some expense \<Rightarrow>
                      if status expense = PROCESSING then
                        (s, Inl (Unauthorized
                           ''You can't update the status of an expense being processed''))
                      else if \<not> canUpdateExpenseStatus env req expense then
                        (s, Inl (Unauthorized ''You don't have permission to approve this expense''))
                      else if status expense = new_status then (s, Inr expense)
                      else if new_status = APPROVED \<and> status expense = PAID then
                        (s, Inl (Unauthorized ''You can't approve an expense that is already paid''))
                      else if new_status = REJECTED \<and> status expense = PAID then
                        (s, Inl (Unauthorized ''You can't reject an expense that is already paid''))
                      else if new_status = PAID \<and> status expense \<noteq> APPROVED then
                        (s, Inl (Unauthorized
                           ''The expense must be approved before you can set it to paid''))
                      else
                        (case expense_update s expense new_status user of
                           (s1, updatedExpense) \<Rightarrow>
                             (let s2 =
                                (if new_status = APPROVED then
                                   createActivity s1 updatedExpense COLLECTIVE_EXPENSE_APPROVED
                                 else if new_status = REJECTED then
                                   createActivity s1 updatedExpense COLLECTIVE_EXPENSE_REJECTED
                                 else if new_status = PENDING then
                                   createActivity s1 updatedExpense COLLECTIVE_EXPENSE_UNAPPROVED
                                 else s1)
                              in (s2, Inr updatedExpense))))))"

subsubsection \<open>payExpense\<close>

text \<open>An awaited call followed by the rest of the function: an error ends the function.\<close>

definition and_then ::
  "state \<times> (error + 'a) \<Rightarrow> (state \<Rightarrow> 'a \<Rightarrow> state \<times> (error + 'b)) \<Rightarrow> state \<times> (error + 'b)" where
  "and_then m f = (case m of (s, Inl e) \<Rightarrow> (s, Inl e) | (s, Inr a) \<Rightarrow> f s a)"

fun payout_type_name :: "PayoutMethodTypes \<Rightarrow> string" where
  "payout_type_name PAYPAL = ''PAYPAL''"
| "payout_type_name BANK_ACCOUNT = ''BANK_ACCOUNT''"
| "payout_type_name ACCOUNT_BALANCE = ''ACCOUNT_BALANCE''"
| "payout_type_name OTHER = ''OTHER''"

text \<open>\<^verbatim>\<open>markExpenseAsPaid\<close> (the role given to the contributor is outside the state).\<close>

definition markExpenseAsPaid :: "state \<Rightarrow> expense \<Rightarrow> nat \<Rightarrow> state \<times> (error + expense)" where
  "markExpenseAsPaid s expense user =
     (case setPaid s expense user of
        (s1, paidExpense) \<Rightarrow> (createActivity s1 paidExpense COLLECTIVE_EXPENSE_PAID, Inr paidExpense))"

text \<open>\<^verbatim>\<open>createTransactions\<close>: the ledger entries of a paid expense.\<close>

definition createTransactions ::
  "expense_env \<Rightarrow> state \<Rightarrow> account \<Rightarrow> expense \<Rightarrow> fees_in_host_currency \<Rightarrow> string option \<Rightarrow>
     state \<times> (error + unit)" where
  "createTransactions env s host expense fees payload =
     (case createTransactionFromPaidExpense env host None expense None (UserId expense) fees payload
             (ledger s) of
        (rows, failure) \<Rightarrow>
          (s\<lparr>ledger := rows\<rparr>, case failure of None \<Rightarrow> Inr () | Some m \<Rightarrow> Inl (Error m)))"

text \<open>The \<^verbatim>\<open>catch\<close> of \<^verbatim>\<open>payExpenseWithPayPal\<close>, on the message of the error caught.\<close>

definition paypal_error :: "string \<Rightarrow> error" where
  "paypal_error m =
     (if sublist
           ''The total amount of all payments exceeds the maximum total amount for all payments'' m
      then ValidationFailed
             ''Not enough funds in your existing Paypal preapproval. Please refill your PayPal payment balance.''
      else BadRequest m)"

definition payExpenseWithPayPal ::
  "expense_env \<Rightarrow> state \<Rightarrow> nat \<Rightarrow> expense \<Rightarrow> account \<Rightarrow> payment_method \<Rightarrow> string \<Rightarrow>
     fees_in_host_currency \<Rightarrow> state \<times> (error + unit)" where
  "payExpenseWithPayPal env s user expense host paymentMethod toPaypalEmail fees =
     (case paypal_pay env (collective expense) expense toPaypalEmail (payment_token paymentMethod) of
        Inl m \<Rightarrow> (s, Inl (paypal_error m))
      | Inr paymentResponse \<Rightarrow>
          (case createTransactionFromPaidExpense env host (Some paymentMethod) expense
                  (Some paymentResponse) (UserId expense) fees None (ledger s) of
             (rows, Some m) \<Rightarrow> (s\<lparr>ledger := rows\<rparr>, Inl (paypal_error m))
           | (rows, None) \<Rightarrow>
               (case setPaid (s\<lparr>ledger := rows\<rparr>) expense user of
                  (s1, paidExpense) \<Rightarrow>
                    (case updateBalance env paymentMethod of
                       Some m \<Rightarrow> (s1, Inl (paypal_error m))
                     | None \<Rightarrow> (s1, Inr ())))))"

definition payExpenseWithTransferwise ::
  "expense_env \<Rightarrow> state \<Rightarrow> account \<Rightarrow> payout_method option \<Rightarrow> expense \<Rightarrow>
     fees_in_host_currency \<Rightarrow> nat \<Rightarrow> state \<times> (error + unit)" where
  "payExpenseWithTransferwise env s host payoutMethod expense fees user =
     (case getConnectedAccounts env host of
        None \<Rightarrow> (s, Inl (Error ''Host is not connected to Transferwise''))
      | Some connectedAccount \<Rightarrow>
          (case handleTransferwisePayoutsLimit env host of
             Some m \<Rightarrow> (s, Inl (Error m))
           | None \<Rightarrow>
               (case transferwise_payExpense env connectedAccount payoutMethod expense of
                  Inl m \<Rightarrow> (s, Inl (Error m))
                | Inr payload \<Rightarrow>
                    and_then (createTransactions env s host expense fees (Some payload))
                      (\<lambda>s1 _. (createActivity s1 expense COLLECTIVE_EXPENSE_PROCESSING, Inr ())))))"

text \<open>
  Line 629: the type of the payout method of the expense, or the type its legacy payout
  method stands for.
\<close>

definition payoutMethodTypeOf :: "expense_env \<Rightarrow> expense \<Rightarrow> PayoutMethodTypes" where
  "payoutMethodTypeOf env expense =
     (case getPayoutMethod env expense of
        Some pm \<Rightarrow> payout_type pm
      | None \<Rightarrow> getPayoutMethodTypeFromLegacy env expense)"

text \<open>
  Lines 631 to 647: the payment processor fee of the payout, in the currency of the
  collective. A rate of zero would make \<^verbatim>\<open>quote.fee / fxrate\<close> infinite or \<^verbatim>\<open>NaN\<close>.
\<close>

definition estimatedFee ::
  "expense_env \<Rightarrow> account \<Rightarrow> expense \<Rightarrow> pay_args \<Rightarrow> payout_method option \<Rightarrow> PayoutMethodTypes \<Rightarrow>
     number \<Rightarrow> error + number option" where
  "estimatedFee env host expense args payoutMethod payoutMethodType fxrate =
     (if payoutMethodType = BANK_ACCOUNT \<and> \<not> forceManual args then
        (case getConnectedAccounts env host of
           None \<Rightarrow> Inl (Error ''Host is not connected to Transferwise'')
         | Some connectedAccount \<Rightarrow>
             (case getTemporaryQuote env connectedAccount payoutMethod expense of
                Inl m \<Rightarrow> Inl (Error m)
              | Inr quote_fee \<Rightarrow>
                  if fxrate = 0 then Inl NonFiniteNumber
                  else Inr (Some (floatAmountToCents env (divide_double env quote_fee fxrate)))))
      else if payoutMethodType = PAYPAL \<and> \<not> forceManual args then
        (case paypal_fees env (expense_amount expense) (account_currency (collective expense)) host of
           Inl m \<Rightarrow> Inl (Error m)
         | Inr fee \<Rightarrow> Inr (Some fee))
      else Inr (paymentProcessorFeeInCollectiveCurrency args))"

text \<open>Lines 674 to 722: the payout, by the type of the payout method.\<close>

definition payExpense_payout ::
  "expense_env \<Rightarrow> state \<Rightarrow> nat \<Rightarrow> expense \<Rightarrow> account \<Rightarrow> pay_args \<Rightarrow> payout_method option \<Rightarrow>
     PayoutMethodTypes \<Rightarrow> fees_in_host_currency \<Rightarrow> state \<times> (error + expense)" where
  "payExpense_payout env s user expense host args payoutMethod payoutMethodType feesInHostCurrency =
     (if payoutMethodType = PAYPAL then
        (case payoutMethod of
           None \<Rightarrow> (s, Inl TypeError)
         | Some pm \<Rightarrow>
             (let paypalEmail = payout_email pm;
                  paypalPaymentMethod = getPaymentMethod env host
              in if (case paypalPaymentMethod of
                       None \<Rightarrow> False | Some p \<Rightarrow> paypalEmail = payment_name p) then
                   and_then
                     (createTransactions env s host expense
                        (feesInHostCurrency\<lparr>fees_paymentProcessorFeeInHostCurrency := 0\<rparr>) None)
                     (\<lambda>s1 _. markExpenseAsPaid s1 expense user)
                 else if forceManual args then
                   and_then (createTransactions env s host expense feesInHostCurrency None)
                     (\<lambda>s1 _. markExpenseAsPaid s1 expense user)
                 else
                   (case paypalPaymentMethod of
                      Some p \<Rightarrow>
                        and_then
                          (payExpenseWithPayPal env s user expense host p paypalEmail
                             feesInHostCurrency)
                          (\<lambda>s1 _. markExpenseAsPaid s1 expense user)
                    | None \<Rightarrow>
                        (s, Inl (Error
                           ''No Paypal account linked, please reconnect Paypal or pay manually'')))))
      else if payoutMethodType = BANK_ACCOUNT then
        (if forceManual args then
           and_then
             (createTransactions env s host expense
                (feesInHostCurrency\<lparr>fees_paymentProcessorFeeInHostCurrency := 0\<rparr>) None)
             (\<lambda>s1 _. markExpenseAsPaid s1 expense user)
         else
           and_then
             (payExpenseWithTransferwise env s host payoutMethod expense feesInHostCurrency user)
             (\<lambda>s1 _. case setProcessing s1 expense user of (s2, e2) \<Rightarrow> (s2, Inr e2)))
      else if payoutMethodType = ACCOUNT_BALANCE then
        (case getHostCollective env (fromCollective expense) of
           None \<Rightarrow>
             (s, Inl (Error
                ''The payee needs to have an Host to able to be paid on its Open Collective balance.''))
         | Some payeeHost \<Rightarrow>
             if account_id host \<noteq> account_id payeeHost then
               (s, Inl (Error
                  ''The payee needs to be on the same Host than the payer to be paid on its Open Collective balance.''))
             else
               and_then (createTransactions env s host expense feesInHostCurrency None)
                 (\<lambda>s1 _. markExpenseAsPaid s1 expense user))
      else if legacyPayoutMethod expense = ''manual'' \<or> legacyPayoutMethod expense = ''other'' then
        and_then (createTransactions env s host expense feesInHostCurrency None)
          (\<lambda>s1 _. markExpenseAsPaid s1 expense user)
      else markExpenseAsPaid s expense user)"

text \<open>The message of the error of line 613.\<close>

definition in_kind_message :: string where
  \<open>in_kind_message = ''"In kind" donations are not supported anymore''\<close>

text \<open>
  Lines 610 to 672: the host, the balance of the collective and the two checks of the
  funds. Reading \<^verbatim>\<open>host.currency\<close> throws when the collective has no host.
\<close>

definition payExpense_funds ::
  "expense_env \<Rightarrow> state \<Rightarrow> nat \<Rightarrow> expense \<Rightarrow> pay_args \<Rightarrow> state \<times> (error + expense)" where
  \<open>payExpense_funds env s user expense args =
     (if legacyPayoutMethod expense = ''donation'' then
        (s, Inl (Error in_kind_message))
      else
        (let balance = getBalance env (ledger s) (collective expense);
             cur = account_currency (collective expense)
         in if expense_amount expense > balance then
              (s, Inl (Unauthorized
                 (''You don't have enough funds to pay this expense. Current balance: ''
                  @ formatCurrency env (of_int balance) cur
                  @ '', Expense amount: ''
                  @ formatCurrency env (of_int (expense_amount expense)) cur)))
            else
              (case getHostCollective env (collective expense) of
                 None \<Rightarrow> (s, Inl TypeError)
               | Some host \<Rightarrow>
                   (let fxrate = getFxRate env cur (account_currency host) None;
                        payoutMethod = getPayoutMethod env expense;
                        payoutMethodType = payoutMethodTypeOf env expense
                    in case estimatedFee env host expense args payoutMethod payoutMethodType fxrate of
                         Inl e \<Rightarrow> (s, Inl e)
                       | Inr fee \<Rightarrow>
                           (let feesInHostCurrency =
                                  \<lparr>fees_paymentProcessorFeeInHostCurrency =
                                     Math_round (fxrate * or_else fee 0),
                                   fees_hostFeeInHostCurrency =
                                     Math_round (fxrate * or_else (hostFeeInCollectiveCurrency args) 0),
                                   fees_platformFeeInHostCurrency =
                                     Math_round
                                       (fxrate * or_else (platformFeeInCollectiveCurrency args) 0)\<rparr>;
                                processorFee = or_else fee 0
                            in if of_int (expense_amount expense) + processorFee > of_int balance then
                                 (s, Inl (Error
                                    (''You don't have enough funds to cover for the fees of this payment method. Current balance: ''
                                     @ formatCurrency env (of_int balance) cur
                                     @ '', Expense amount: ''
                                     @ formatCurrency env (of_int (expense_amount expense)) cur
                                     @ '', Estimated '' @ payout_type_name payoutMethodType
                                     @ '' fees: '' @ formatCurrency env processorFee cur)))
                               else
                                 payExpense_payout env s user expense host args payoutMethod
                                   payoutMethodType feesInHostCurrency)))))\<close>

text \<open>\<^verbatim>\<open>payExpense\<close>: lines 578 to 609, then the two parts above.\<close>

definition payExpense ::
  "expense_env \<Rightarrow> state \<Rightarrow> request \<Rightarrow> pay_args \<Rightarrow> state \<times> (error + expense)" where
  "payExpense env s req args =
     (case remoteUser req of
        None \<Rightarrow> (s, Inl (Unauthorized ''You need to be logged in to pay an expense''))
      | Some user \<Rightarrow>
          if \<not> canUseFeature env user then (s, Inl FeatureNotAllowedForUser)
          else
            (case expenses s (args_id args) of
               None \<Rightarrow> (s, Inl (Unauthorized ''Expense not found''))
             | Some expense \<Rightarrow>
                 if status expense = PAID then
                   (s, Inl (Unauthorized ''Expense has already been paid''))
                 else if status expense = PROCESSING then
                   (s, Inl (Unauthorized
                      ''Expense is currently being processed, this means someone already started the payment process''))
                 else if status expense \<noteq> APPROVED then
                   (s, Inl (Unauthorized
                      (''Expense needs to be approved. Current status of the expense: ''
                       @ status_name (status expense) @ ''.'')))
                 else if \<not> canPayExpense env req expense then
                   (s, Inl (Unauthorized ''You don't have permission to pay this expense''))
                 else payExpense_funds env s user expense args))"

subsubsection \<open>markExpenseAsUnpaid\<close>

definition markExpenseAsUnpaid ::
  "expense_env \<Rightarrow> state \<Rightarrow> request \<Rightarrow> nat \<Rightarrow> bool \<Rightarrow> state \<times> (error + expense)" where
  "markExpenseAsUnpaid env s req expenseId processorFeeRefunded =
     (case remoteUser req of
        None \<Rightarrow> (s, Inl (Unauthorized ''You need to be logged in to unpay an expense''))
      | Some user \<Rightarrow>
          if \<not> canUseFeature env user then (s, Inl FeatureNotAllowedForUser)
          else
            (case expenses s expenseId of
               None \<Rightarrow> (s, Inl (NotFound ''No expense found''))
             | Some expense \<Rightarrow>
                 if \<not> canMarkAsUnpaid env req expense then
                   (s, Inl (Unauthorized
                      ''You don't have permission to mark this expense as unpaid''))
                 else if status expense \<noteq> PAID then
                   (s, Inl (Unauthorized ''Expense has not been paid yet''))
                 else
                   (let found = find (\<lambda>t. ExpenseId t = Some expenseId) (ledger s) in
                    case (if processorFeeRefunded
                          then (case found of
                                  None \<Rightarrow> Inl TypeError
                                | Some t \<Rightarrow> Inr (paymentProcessorFeeInHostCurrency t))
                          else Inr (Some 0)) of
                      Inl e \<Rightarrow> (s, Inl e)
                    | Inr fee \<Rightarrow>
                        (case createRefundTransaction env found fee (UserId expense) (ledger s) of
                           (rows, Inl m) \<Rightarrow> (s\<lparr>ledger := rows\<rparr>, Inl (Error m))
                         | (rows, Inr refundedTransaction) \<Rightarrow>
                             (case associateTransactionRefundId env found refundedTransaction rows of
                                (rows', Some m) \<Rightarrow> (s\<lparr>ledger := rows'\<rparr>, Inl (Error m))
                              | (rows', None) \<Rightarrow>
                                  (case expense_update (s\<lparr>ledger := rows'\<rparr>) expense APPROVED user of
                                     (s1, updatedExpense) \<Rightarrow>
                                       (createActivity s1 updatedExpense
                                          COLLECTIVE_EXPENSE_MARKED_AS_UNPAID,
                                        Inr updatedExpense)))))))"

section \<open>Reading results\<close>

text \<open>The table a call of \<^verbatim>\<open>createDoubleEntry\<close> leaves (empty when it throws).\<close>

definition rows_of :: "error + (transaction list \<times> transaction) \<Rightarrow> transaction list" where
  "rows_of r = (case r of Inl e \<Rightarrow> [] | Inr (rows, t) \<Rightarrow> rows)"

text \<open>
  The table a call of \<^verbatim>\<open>createFeesOnTopTransaction\<close> leaves, and the transaction it was
  given as the call leaves it.
\<close>

definition split_rows ::
  "error + (transaction list \<times> transaction \<times> transaction option) \<Rightarrow> transaction list" where
  "split_rows r = (case r of Inl e \<Rightarrow> [] | Inr (rows, t, ret) \<Rightarrow> rows)"

definition main_after ::
  "error + (transaction list \<times> transaction \<times> transaction option) \<Rightarrow> transaction \<Rightarrow> transaction" where
  "main_after r t = (case r of Inl e \<Rightarrow> t | Inr (rows, t', ret) \<Rightarrow> t')"

section \<open>Example inputs\<close>

text \<open>
  A table of collectives with an active user account 10 on host 30 and an account 11 that
  is not active; a rate of 1 within a currency and of 1/128 from yen to dollars.
\<close>

definition example_ledger_env :: ledger_env where
  "example_ledger_env =
     \<lparr>collectives =
        [10 \<mapsto> \<lparr>isActive = True, collective_currency = ''USD'',
                 collective_HostCollectiveId = Some 30\<rparr>,
         11 \<mapsto> \<lparr>isActive = False, collective_currency = ''USD'',
                 collective_HostCollectiveId = None\<rparr>],
      getFxRate =
        (\<lambda>source target date.
           if source = target then 1
           else if source = ''JPY'' \<and> target = ''USD'' then 1 / 128 else 1)\<rparr>"

text \<open>
  The intent of an expense of 1000 cents that collective 20 pays to the user account 10,
  with a payment processor fee of 100 cents, as the spec's scenario gives it.
\<close>

definition expense_intent :: transaction where
  "expense_intent =
     \<lparr>row_id = None, type = None, description = None, amount = - 1000, currency = ''USD'',
      CreatedByUserId = Some 1, FromCollectiveId = Some 10, CollectiveId = Some 20,
      HostCollectiveId = Some 30, OrderId = None, ExpenseId = Some 5, hostCurrency = ''USD'',
      hostCurrencyFxRate = Some 1, amountInHostCurrency = Some (- 1000),
      platformFeeInHostCurrency = Some 0, hostFeeInHostCurrency = Some 0,
      paymentProcessorFeeInHostCurrency = Some (- 100), taxAmount = None,
      netAmountInCollectiveCurrency = None, data = None, TransactionGroup = None,
      RefundTransactionId = None, createdAt = Some 0\<rparr>"


definition inactive_intent :: transaction where
  "inactive_intent =
     expense_intent\<lparr>FromCollectiveId := Some 11,
       netAmountInCollectiveCurrency := Some (- 1100)\<rparr>"

definition example_platform :: fees_on_top_properties where
  "example_platform =
     \<lparr>platform_CollectiveId = 1, platform_HostCollectiveId = 8686,
      platform_hostCurrency = ''USD'', platform_currency = ''USD''\<rparr>"

text \<open>
  A contribution of 1000 from the account 10 to collective 20 that carries a platform
  fee of 100 on top and a payment processor fee of 30: in dollars, in yen, and in dollars
  with a platform fee of zero.
\<close>

definition dollar_contribution :: transaction where
  "dollar_contribution =
     \<lparr>row_id = None, type = None, description = None, amount = 1000, currency = ''USD'',
      CreatedByUserId = Some 1, FromCollectiveId = Some 10, CollectiveId = Some 20,
      HostCollectiveId = Some 30, OrderId = Some 3, ExpenseId = None, hostCurrency = ''USD'',
      hostCurrencyFxRate = Some 1, amountInHostCurrency = Some 1000,
      platformFeeInHostCurrency = Some (- 100), hostFeeInHostCurrency = Some 0,
      paymentProcessorFeeInHostCurrency = Some (- 30), taxAmount = None,
      netAmountInCollectiveCurrency = None,
      data = Some \<lparr>isFeesOnTop = True, oppositeTransactionCurrencyFxRate = None,
                    hostToPlatformFxRate = None\<rparr>,
      TransactionGroup = None, RefundTransactionId = None, createdAt = Some 0\<rparr>"

definition yen_contribution :: transaction where
  "yen_contribution = dollar_contribution\<lparr>currency := ''JPY'', hostCurrency := ''JPY''\<rparr>"

definition zero_fee_contribution :: transaction where
  "zero_fee_contribution = dollar_contribution\<lparr>platformFeeInHostCurrency := Some 0\<rparr>"

text \<open>
  Four expenses of collective 20, one in each of the statuses \<open>PAID\<close>, \<open>PENDING\<close>,
  \<open>APPROVED\<close> and \<open>PROCESSING\<close>, each of 10000 cents; a balance of 9999 cents; every
  permission granted; a currency printed as the number of cents before its code.
\<close>

definition example_expense :: "nat \<Rightarrow> expense_status \<Rightarrow> expense" where
  "example_expense i st =
     \<lparr>expense_id = i, status = st, expense_amount = 10000,
      collective = \<lparr>account_id = 20, account_currency = ''USD''\<rparr>,
      fromCollective = \<lparr>account_id = 10, account_currency = ''USD''\<rparr>,
      UserId = 1, lastEditedById = None, legacyPayoutMethod = ''manual''\<rparr>"

definition example_state :: state where
  "example_state =
     \<lparr>expenses =
        [1 \<mapsto> example_expense 1 PAID, 2 \<mapsto> example_expense 2 PENDING,
         3 \<mapsto> example_expense 3 APPROVED, 4 \<mapsto> example_expense 4 PROCESSING],
      ledger = [], activities = []\<rparr>"

text \<open>The same state with the approved expense 3 recorded as a legacy in-kind donation.\<close>

definition in_kind_expense :: expense where
  "in_kind_expense = (example_expense 3 APPROVED)\<lparr>legacyPayoutMethod := ''donation''\<rparr>"

definition in_kind_state :: state where
  "in_kind_state = example_state\<lparr>expenses := [3 \<mapsto> in_kind_expense]\<rparr>"

definition example_expense_env :: expense_env where
  "example_expense_env =
     \<lparr>collectives = collectives example_ledger_env,
      getFxRate = getFxRate example_ledger_env,
      canUseFeature = (\<lambda>user. True),
      canUpdateExpenseStatus = (\<lambda>req expense. True),
      canPayExpense = (\<lambda>req expense. True),
      canMarkAsUnpaid = (\<lambda>req expense. True),
      getHostCollective = (\<lambda>a. Some \<lparr>account_id = 30, account_currency = ''USD''\<rparr>),
      getBalance = (\<lambda>rows a. 9999),
      formatCurrency = (\<lambda>n cur. Number_toString \<lfloor>n\<rfloor> @ '' '' @ cur),
      getPayoutMethod = (\<lambda>expense. None),
      getPayoutMethodTypeFromLegacy = (\<lambda>expense. OTHER),
      getConnectedAccounts = (\<lambda>host. None),
      getTemporaryQuote = (\<lambda>account pm expense. Inr 0),
      floatAmountToCents = (\<lambda>x. Math_round (x * 100)),
      divide_double = (\<lambda>x y. x / y),
      paypal_fees = (\<lambda>a cur host. Inr 0),
      getPaymentMethod = (\<lambda>host. None),
      paypal_pay = (\<lambda>a expense email token. Inr ''ok''),
      updateBalance = (\<lambda>pm. None),
      handleTransferwisePayoutsLimit = (\<lambda>host. None),
      transferwise_payExpense = (\<lambda>account pm expense. Inr ''ok''),
      createTransactionFromPaidExpense =
        (\<lambda>host pm expense response user fees payload rows. (rows, None)),
      createRefundTransaction =
        (\<lambda>t fee user rows. (rows, Inl ''no transaction to refund'')),
      associateTransactionRefundId = (\<lambda>t refund rows. (rows, None))\<rparr>"

definition logged_in :: request where
  "logged_in = \<lparr>remoteUser = Some 7\<rparr>"

definition pay :: "nat \<Rightarrow> pay_args" where
  "pay i =
     \<lparr>args_id = i, forceManual = False, paymentProcessorFeeInCollectiveCurrency = None,
      hostFeeInCollectiveCurrency = None, platformFeeInCollectiveCurrency = None\<rparr>"

section \<open>Properties of the double entry\<close>

lemma mapSeries_create_two:
  "mapSeries_create rows [a, b] =
     (rows @ [a\<lparr>row_id := Some (Suc (length rows))\<rparr>,
              b\<lparr>row_id := Some (Suc (Suc (length rows)))\<rparr>],
      [a\<lparr>row_id := Some (Suc (length rows))\<rparr>,
       b\<lparr>row_id := Some (Suc (Suc (length rows)))\<rparr>])"
  by (simp add: Transaction_create_def Let_def)

lemma primary_fields:
  "amount (primaryTransaction u t) = amount t"
  "currency (primaryTransaction u t) = currency t"
  "type (primaryTransaction u t) = Some (if amount t > 0 then CREDIT else DEBIT)"
  "netAmountInCollectiveCurrency (primaryTransaction u t) =
     Some (or_else (netAmountInCollectiveCurrency t) (amount t))"
  "CollectiveId (primaryTransaction u t) = CollectiveId t"
  "FromCollectiveId (primaryTransaction u t) = FromCollectiveId t"
  "createdAt (primaryTransaction u t) = createdAt t"
  "paymentProcessorFeeInHostCurrency (primaryTransaction u t) =
     paymentProcessorFeeInHostCurrency t"
  by (simp_all add: primaryTransaction_def)

lemma opposite_type:
  "type (oppositeTransaction env c n r p) = Some (if amount p < 0 then CREDIT else DEBIT)"
  by (simp add: oppositeTransaction_def Let_def)

lemma opposite_parties:
  "CollectiveId (oppositeTransaction env c n r p) = FromCollectiveId p"
  "FromCollectiveId (oppositeTransaction env c n r p) = CollectiveId p"
  "paymentProcessorFeeInHostCurrency (oppositeTransaction env c n r p) =
     paymentProcessorFeeInHostCurrency p"
  by (simp_all add: oppositeTransaction_def Let_def)

lemma opposite_inactive:
  assumes "\<not> isActive c"
  shows "amount (oppositeTransaction env c n r p) = - n"
    and "netAmountInCollectiveCurrency (oppositeTransaction env c n r p) = Some (- amount p)"
    and "currency (oppositeTransaction env c n r p) = currency p"
    and "HostCollectiveId (oppositeTransaction env c n r p) = None"
  using assms by (simp_all add: oppositeTransaction_def Let_def)

lemma opposite_active:
  assumes "isActive c"
  shows "amount (oppositeTransaction env c n r p) =
           - Math_round (n * getFxRate env (currency p) (collective_currency c) (createdAt p))"
    and "netAmountInCollectiveCurrency (oppositeTransaction env c n r p) =
           Some (- Math_round
                     (amount p * getFxRate env (currency p) (collective_currency c) (createdAt p)))"
    and "currency (oppositeTransaction env c n r p) = collective_currency c"
    and "HostCollectiveId (oppositeTransaction env c n r p) = collective_HostCollectiveId c"
  using assms by (simp_all add: oppositeTransaction_def Let_def)

text \<open>
  When the collective is found, the two rows are the primary and the opposite transaction
  with their primary keys, the negative primary first, and the primary row is returned.
\<close>

lemma createDoubleEntry_rows:
  assumes "findByPk env (FromCollectiveId t) = Some c"
  shows "\<exists>i j. createDoubleEntry env u rows t =
           Inr (rows @
                  (if amount t < 0
                   then [(primaryTransaction u t)\<lparr>row_id := Some i\<rparr>,
                         (oppositeTransaction env c
                            (or_else (netAmountInCollectiveCurrency t) (amount t))
                            (or_else (hostCurrencyFxRate t) 1)
                            (primaryTransaction u t))\<lparr>row_id := Some j\<rparr>]
                   else [(oppositeTransaction env c
                            (or_else (netAmountInCollectiveCurrency t) (amount t))
                            (or_else (hostCurrencyFxRate t) 1)
                            (primaryTransaction u t))\<lparr>row_id := Some j\<rparr>,
                         (primaryTransaction u t)\<lparr>row_id := Some i\<rparr>]),
                (primaryTransaction u t)\<lparr>row_id := Some i\<rparr>)"
proof -
  have found: "findByPk env (FromCollectiveId (primaryTransaction u t)) = Some c"
    using assms by (simp add: primary_fields)
  show ?thesis
  proof (cases "amount t < 0")
    case True
    then have "createDoubleEntry env u rows t =
        Inr (rows @ [(primaryTransaction u t)\<lparr>row_id := Some (Suc (length rows))\<rparr>,
                     (oppositeTransaction env c
                        (or_else (netAmountInCollectiveCurrency t) (amount t))
                        (or_else (hostCurrencyFxRate t) 1)
                        (primaryTransaction u t))\<lparr>row_id := Some (Suc (Suc (length rows)))\<rparr>],
             (primaryTransaction u t)\<lparr>row_id := Some (Suc (length rows))\<rparr>)"
      unfolding createDoubleEntry_def Let_def found
      by (simp add: primary_fields mapSeries_create_two del: mapSeries_create.simps)
    with True show ?thesis by auto
  next
    case False
    then have "createDoubleEntry env u rows t =
        Inr (rows @ [(oppositeTransaction env c
                        (or_else (netAmountInCollectiveCurrency t) (amount t))
                        (or_else (hostCurrencyFxRate t) 1)
                        (primaryTransaction u t))\<lparr>row_id := Some (Suc (length rows))\<rparr>,
                     (primaryTransaction u t)\<lparr>row_id := Some (Suc (Suc (length rows)))\<rparr>],
             (primaryTransaction u t)\<lparr>row_id := Some (Suc (Suc (length rows)))\<rparr>)"
      unfolding createDoubleEntry_def Let_def found
      by (simp add: primary_fields mapSeries_create_two del: mapSeries_create.simps)
    with False show ?thesis by auto
  qed
qed


text \<open>The floor of a quotient of numerals, over the rationals.\<close>

lemma floor_rat_divide_numeral [simp]:
  "\<lfloor>numeral a / numeral b :: rat\<rfloor> = numeral a div numeral b"
  by (metis floor_divide_of_int_eq of_int_numeral)

lemma floor_rat_minus_divide_numeral [simp]:
  "\<lfloor>- (numeral a / numeral b) :: rat\<rfloor> = - numeral a div numeral b"
  by (metis divide_minus_left floor_divide_of_int_eq of_int_neg_numeral of_int_numeral)

lemma floor_rat_one_divide_numeral [simp]:
  "\<lfloor>1 / numeral b :: rat\<rfloor> = 1 div numeral b"
  by (metis floor_divide_of_int_eq of_int_1 of_int_numeral)

lemma floor_rat_minus_one_divide_numeral [simp]:
  "\<lfloor>- (1 / numeral b) :: rat\<rfloor> = - 1 div numeral b"
  by (metis (mono_tags, opaque_lifting) div_minus_right minus_divide_right
      floor_divide_of_int_eq of_int_neg_numeral of_int_1)



text \<open>
  Claim C2 as the spec states it fails: the intent of the scenario carries an amount and
  a payment processor fee and no net amount, so line 405 sets the net amount of the
  primary entry to the amount, - 1000, and the opposite entry has the amount 1000.
\<close>

theorem C2_counterexample:
  "amount expense_intent = - 1000 \<and>
   netAmountInCollectiveCurrency expense_intent = None \<and>
   paymentProcessorFeeInHostCurrency expense_intent = Some (- 100) \<and>
   netAmountInCollectiveCurrency
     (rows_of (createDoubleEntry example_ledger_env ''g'' [] expense_intent) ! 0) = Some (- 1000) \<and>
   amount (rows_of (createDoubleEntry example_ledger_env ''g'' [] expense_intent) ! 1) = 1000"
  by (simp add: rows_of_def createDoubleEntry_def primaryTransaction_def oppositeTransaction_def
        findByPk_def example_ledger_env_def expense_intent_def
        Transaction_create_def or_else_def Math_round_def Let_def)

text \<open>\<^verbatim>\<open>Math.round\<close> leaves a whole number as it is.\<close>

lemma Math_round_of_int [simp]: "Math_round (of_int k) = of_int k"
proof -
  have "\<lfloor>(of_int k :: rat) + 1 / 2\<rfloor> = k" by linarith
  then show ?thesis by (simp add: Math_round_def)
qed

lemma Math_round_numeral [simp]:
  "Math_round (numeral n) = numeral n" "Math_round (- numeral n) = - numeral n"
  using Math_round_of_int [of "numeral n"] Math_round_of_int [of "- numeral n"] by simp_all

text \<open>
  Claim C2, amended: when the intent of the scenario also carries the net amount - 1100
  (the amount and the fee), and the account it is paid to is active and held in the
  currency of the intent at a rate of 1, \<^verbatim>\<open>createDoubleEntry\<close> creates a primary \<open>DEBIT\<close>
  entry with amount - 1000 and net amount - 1100, then an opposite \<open>CREDIT\<close> entry on
  the ledger of that account with amount 1100 and net amount 1000, and returns the primary.
\<close>

theorem C2_scenario:
  assumes "amount t = - 1000"
    and "netAmountInCollectiveCurrency t = Some (- 1100)"
    and "findByPk env (FromCollectiveId t) = Some c"
    and "isActive c"
    and "collective_currency c = currency t"
    and "getFxRate env (currency t) (currency t) (createdAt t) = 1"
  shows "\<exists>p opp.
      createDoubleEntry env u rows t = Inr (rows @ [p, opp], p) \<and>
      type p = Some DEBIT \<and> amount p = - 1000 \<and>
      netAmountInCollectiveCurrency p = Some (- 1100) \<and>
      type opp = Some CREDIT \<and> CollectiveId opp = FromCollectiveId t \<and>
      amount opp = 1100 \<and> netAmountInCollectiveCurrency opp = Some 1000"
proof -
  let ?n = "or_else (netAmountInCollectiveCurrency t) (amount t)"
  let ?P = "primaryTransaction u t"
  let ?O = "oppositeTransaction env c ?n (or_else (hostCurrencyFxRate t) 1) ?P"
  from createDoubleEntry_rows [OF assms(3), of u rows] assms(1) obtain i j where
    r: "createDoubleEntry env u rows t =
          Inr (rows @ [?P\<lparr>row_id := Some i\<rparr>, ?O\<lparr>row_id := Some j\<rparr>], ?P\<lparr>row_id := Some i\<rparr>)"
    by auto
  have n: "?n = - 1100" using assms(2) by (simp add: or_else_def)
  have p: "type (?P\<lparr>row_id := Some i\<rparr>) = Some DEBIT" "amount (?P\<lparr>row_id := Some i\<rparr>) = - 1000"
    "netAmountInCollectiveCurrency (?P\<lparr>row_id := Some i\<rparr>) = Some (- 1100)"
    using assms(1) n by (simp_all add: primary_fields)
  have o: "type (?O\<lparr>row_id := Some j\<rparr>) = Some CREDIT"
    "CollectiveId (?O\<lparr>row_id := Some j\<rparr>) = FromCollectiveId t"
    "amount (?O\<lparr>row_id := Some j\<rparr>) = 1100"
    "netAmountInCollectiveCurrency (?O\<lparr>row_id := Some j\<rparr>) = Some 1000"
    using assms n
    by (simp_all add: primary_fields opposite_type opposite_parties opposite_active [OF assms(4)])
  from r p o show ?thesis by blast
qed


text \<open>C2 on the intent of the scenario with the net amount - 1100.\<close>

theorem C2_scenario_witness:
  "amount (expense_intent\<lparr>netAmountInCollectiveCurrency := Some (- 1100)\<rparr>) = - 1000 \<and>
   paymentProcessorFeeInHostCurrency
     (expense_intent\<lparr>netAmountInCollectiveCurrency := Some (- 1100)\<rparr>) = Some (- 100) \<and>
   (\<exists>p opp.
      createDoubleEntry example_ledger_env ''g'' []
          (expense_intent\<lparr>netAmountInCollectiveCurrency := Some (- 1100)\<rparr>) =
        Inr ([] @ [p, opp], p) \<and>
      type p = Some DEBIT \<and> amount p = - 1000 \<and>
      netAmountInCollectiveCurrency p = Some (- 1100) \<and>
      type opp = Some CREDIT \<and>
      CollectiveId opp =
        FromCollectiveId (expense_intent\<lparr>netAmountInCollectiveCurrency := Some (- 1100)\<rparr>) \<and>
      amount opp = 1100 \<and> netAmountInCollectiveCurrency opp = Some 1000)"
proof -
  let ?t = "expense_intent\<lparr>netAmountInCollectiveCurrency := Some (- 1100)\<rparr>"
  let ?c = "\<lparr>isActive = True, collective_currency = ''USD'',
             collective_HostCollectiveId = Some 30\<rparr>"
  have 1: "amount ?t = - 1000" by (simp add: expense_intent_def)
  have 2: "netAmountInCollectiveCurrency ?t = Some (- 1100)" by simp
  have 3: "findByPk example_ledger_env (FromCollectiveId ?t) = Some ?c"
    by (simp add: findByPk_def example_ledger_env_def expense_intent_def)
  have 4: "isActive ?c" by simp
  have 5: "collective_currency ?c = currency ?t" by (simp add: expense_intent_def)
  have 6: "getFxRate example_ledger_env (currency ?t) (currency ?t) (createdAt ?t) = 1"
    by (simp add: example_ledger_env_def)
  have 7: "paymentProcessorFeeInHostCurrency ?t = Some (- 100)" by (simp add: expense_intent_def)
  from 1 7 C2_scenario [OF 1 2 3 4 5 6, of "''g''" "[]"] show ?thesis by blast
qed

text \<open>
  Claim C3. When the account \<^verbatim>\<open>FromCollectiveId\<close> names is found and is not active, the
  opposite entry \<^verbatim>\<open>createDoubleEntry\<close> creates has the currency of the primary entry, no
  host, the negation of the primary's net amount as its amount and the negation of the
  primary's amount as its net amount.
\<close>

theorem C3_inactive:
  assumes "findByPk env (FromCollectiveId t) = Some c" and "\<not> isActive c"
  shows "\<exists>p opp n.
      createDoubleEntry env u rows t =
        Inr (rows @ (if amount t < 0 then [p, opp] else [opp, p]), p) \<and>
      amount p = amount t \<and> currency p = currency t \<and>
      netAmountInCollectiveCurrency p = Some n \<and>
      currency opp = currency p \<and>
      HostCollectiveId opp = None \<and>
      amount opp = - n \<and>
      netAmountInCollectiveCurrency opp = Some (- amount p)"
proof -
  let ?n = "or_else (netAmountInCollectiveCurrency t) (amount t)"
  let ?P = "primaryTransaction u t"
  let ?O = "oppositeTransaction env c ?n (or_else (hostCurrencyFxRate t) 1) ?P"
  from createDoubleEntry_rows [OF assms(1), of u rows] obtain i j where
    r: "createDoubleEntry env u rows t =
          Inr (rows @ (if amount t < 0
                       then [?P\<lparr>row_id := Some i\<rparr>, ?O\<lparr>row_id := Some j\<rparr>]
                       else [?O\<lparr>row_id := Some j\<rparr>, ?P\<lparr>row_id := Some i\<rparr>]),
               ?P\<lparr>row_id := Some i\<rparr>)"
    by blast
  have p: "amount (?P\<lparr>row_id := Some i\<rparr>) = amount t"
    "currency (?P\<lparr>row_id := Some i\<rparr>) = currency t"
    "netAmountInCollectiveCurrency (?P\<lparr>row_id := Some i\<rparr>) = Some ?n"
    by (simp_all add: primary_fields)
  have o: "currency (?O\<lparr>row_id := Some j\<rparr>) = currency (?P\<lparr>row_id := Some i\<rparr>)"
    "HostCollectiveId (?O\<lparr>row_id := Some j\<rparr>) = None"
    "amount (?O\<lparr>row_id := Some j\<rparr>) = - ?n"
    "netAmountInCollectiveCurrency (?O\<lparr>row_id := Some j\<rparr>) =
       Some (- amount (?P\<lparr>row_id := Some i\<rparr>))"
    by (simp_all add: primary_fields opposite_inactive [OF assms(2)])
  from r p o show ?thesis by blast
qed

text \<open>C3 on an expense paid to the account 11, which is not active.\<close>

theorem C3_inactive_witness:
  "findByPk example_ledger_env (FromCollectiveId inactive_intent) =
     Some \<lparr>isActive = False, collective_currency = ''USD'', collective_HostCollectiveId = None\<rparr> \<and>
   \<not> isActive \<lparr>isActive = False, collective_currency = ''USD'', collective_HostCollectiveId = None\<rparr> \<and>
   (\<exists>p opp n.
      createDoubleEntry example_ledger_env ''g'' [] inactive_intent =
        Inr ([] @ (if amount inactive_intent < 0 then [p, opp] else [opp, p]), p) \<and>
      amount p = amount inactive_intent \<and> currency p = currency inactive_intent \<and>
      netAmountInCollectiveCurrency p = Some n \<and>
      currency opp = currency p \<and>
      HostCollectiveId opp = None \<and>
      amount opp = - n \<and>
      netAmountInCollectiveCurrency opp = Some (- amount p))"
proof -
  let ?c = "\<lparr>isActive = False, collective_currency = ''USD'',
             collective_HostCollectiveId = None\<rparr>"
  have 1: "findByPk example_ledger_env (FromCollectiveId inactive_intent) = Some ?c"
    by (simp add: findByPk_def example_ledger_env_def inactive_intent_def expense_intent_def)
  have 2: "\<not> isActive ?c" by simp
  from 1 2 C3_inactive [OF 1 2, of "''g''" "[]"] show ?thesis by blast
qed

text \<open>
  Claim C4. When the account \<^verbatim>\<open>FromCollectiveId\<close> names is found, \<^verbatim>\<open>createDoubleEntry\<close>
  creates two rows. The first is a \<open>DEBIT\<close> and the second a \<open>CREDIT\<close> (unless the
  amount of the intent is zero); a row with a negative amount never comes after a row
  whose amount is not negative. The row returned is the primary entry, which is the first
  row when the amount of the intent is negative and the second row otherwise.
\<close>

theorem C4_order:
  assumes "findByPk env (FromCollectiveId t) = Some c"
  shows "\<exists>first second i.
      createDoubleEntry env u rows t =
        Inr (rows @ [first, second], (primaryTransaction u t)\<lparr>row_id := Some i\<rparr>) \<and>
      (amount first < 0 \<or> 0 \<le> amount second) \<and>
      type first = Some DEBIT \<and>
      (amount t \<noteq> 0 \<longrightarrow> type second = Some CREDIT) \<and>
      (if amount t < 0 then first else second) = (primaryTransaction u t)\<lparr>row_id := Some i\<rparr> \<and>
      amount (primaryTransaction u t) = amount t \<and>
      CollectiveId (primaryTransaction u t) = CollectiveId t \<and>
      FromCollectiveId (primaryTransaction u t) = FromCollectiveId t"
proof -
  let ?n = "or_else (netAmountInCollectiveCurrency t) (amount t)"
  let ?P = "primaryTransaction u t"
  let ?O = "oppositeTransaction env c ?n (or_else (hostCurrencyFxRate t) 1) ?P"
  from createDoubleEntry_rows [OF assms(1), of u rows] obtain i j where
    r: "createDoubleEntry env u rows t =
          Inr (rows @ (if amount t < 0
                       then [?P\<lparr>row_id := Some i\<rparr>, ?O\<lparr>row_id := Some j\<rparr>]
                       else [?O\<lparr>row_id := Some j\<rparr>, ?P\<lparr>row_id := Some i\<rparr>]),
               ?P\<lparr>row_id := Some i\<rparr>)"
    by blast
  show ?thesis
  proof (cases "amount t < 0")
    case True
    with r have "createDoubleEntry env u rows t =
        Inr (rows @ [?P\<lparr>row_id := Some i\<rparr>, ?O\<lparr>row_id := Some j\<rparr>], ?P\<lparr>row_id := Some i\<rparr>)"
      by simp
    moreover have "amount (?P\<lparr>row_id := Some i\<rparr>) < 0" "type (?P\<lparr>row_id := Some i\<rparr>) = Some DEBIT"
      "type (?O\<lparr>row_id := Some j\<rparr>) = Some CREDIT"
      using True by (simp_all add: primary_fields opposite_type)
    ultimately show ?thesis using True
      by (intro exI [of _ "?P\<lparr>row_id := Some i\<rparr>"] exI [of _ "?O\<lparr>row_id := Some j\<rparr>"] exI [of _ i])
         (simp add: primary_fields)
  next
    case False
    with r have "createDoubleEntry env u rows t =
        Inr (rows @ [?O\<lparr>row_id := Some j\<rparr>, ?P\<lparr>row_id := Some i\<rparr>], ?P\<lparr>row_id := Some i\<rparr>)"
      by simp
    moreover have "0 \<le> amount (?P\<lparr>row_id := Some i\<rparr>)" "type (?O\<lparr>row_id := Some j\<rparr>) = Some DEBIT"
      "amount t \<noteq> 0 \<longrightarrow> type (?P\<lparr>row_id := Some i\<rparr>) = Some CREDIT"
      using False by (simp_all add: primary_fields opposite_type)
    ultimately show ?thesis using False
      by (intro exI [of _ "?O\<lparr>row_id := Some j\<rparr>"] exI [of _ "?P\<lparr>row_id := Some i\<rparr>"] exI [of _ i])
         (simp add: primary_fields)
  qed
qed

text \<open>
  C4 on a contribution of 1000: the opposite entry is created first, the primary entry
  second, and the primary entry is returned.
\<close>

theorem C4_order_witness:
  "findByPk example_ledger_env (FromCollectiveId dollar_contribution) =
     Some \<lparr>isActive = True, collective_currency = ''USD'', collective_HostCollectiveId = Some 30\<rparr> \<and>
   (\<exists>first second i.
      createDoubleEntry example_ledger_env ''g'' [] dollar_contribution =
        Inr ([] @ [first, second], (primaryTransaction ''g'' dollar_contribution)\<lparr>row_id := Some i\<rparr>) \<and>
      (amount first < 0 \<or> 0 \<le> amount second) \<and>
      type first = Some DEBIT \<and>
      (amount dollar_contribution \<noteq> 0 \<longrightarrow> type second = Some CREDIT) \<and>
      (if amount dollar_contribution < 0 then first else second) =
        (primaryTransaction ''g'' dollar_contribution)\<lparr>row_id := Some i\<rparr> \<and>
      amount (primaryTransaction ''g'' dollar_contribution) = amount dollar_contribution \<and>
      CollectiveId (primaryTransaction ''g'' dollar_contribution) = CollectiveId dollar_contribution \<and>
      FromCollectiveId (primaryTransaction ''g'' dollar_contribution) =
        FromCollectiveId dollar_contribution)"
proof -
  have h: "findByPk example_ledger_env (FromCollectiveId dollar_contribution) =
     Some \<lparr>isActive = True, collective_currency = ''USD'', collective_HostCollectiveId = Some 30\<rparr>"
    by (simp add: findByPk_def example_ledger_env_def dollar_contribution_def)
  show ?thesis
    using h C4_order [OF h, of "''g''" "[]"] by (rule conjI)
qed

section \<open>Properties of the fees on top\<close>

lemma Math_round_Ints: "x \<in> \<int> \<Longrightarrow> Math_round x = x"
  by (auto elim: Ints_cases)

text \<open>\<^verbatim>\<open>Math.round\<close> moves a number by at most a half.\<close>

lemma Math_round_near: "\<bar>Math_round x - x\<bar> \<le> 1 / 2"
proof -
  have "of_int \<lfloor>x + 1 / 2\<rfloor> \<le> x + 1 / 2" "x + 1 / 2 < of_int \<lfloor>x + 1 / 2\<rfloor> + 1"
    by linarith+
  then show ?thesis unfolding Math_round_def by linarith
qed

lemma donation_fields:
  "amount (donationTransaction env props fee pf t) =
     Math_round (Math_abs fee * getFxRate env (currency t) (platform_currency props) None)"
  "FromCollectiveId (donationTransaction env props fee pf t) = FromCollectiveId t"
  "CollectiveId (donationTransaction env props fee pf t) = Some (platform_CollectiveId props)"
  "currency (donationTransaction env props fee pf t) = platform_currency props"
  by (simp_all add: donationTransaction_def Let_def)

text \<open>
  Claim C5, amended. Take an entry flagged as carrying a fee on top, whose platform fee is
  a whole number stored as a negative number and whose amount is a whole number, both below
  \<open>2 ^ 52\<close> in absolute value; whose host currency rate is 1 or unset; whose payer is
  found; and whose amount in host currency is not zero unless its payment processor fee is
  zero or unset (line 476 divides by that amount). Let \<open>r\<close> be the rate from its currency
  to the platform's currency, positive, with the absolute platform fee times \<open>r\<close> below
  \<open>2 ^ 52\<close>. Then the splitter creates the two rows of the donation, the donation entry
  second, on the platform's account and in the platform's currency, and the amount of the
  main entry as the splitter leaves it plus the amount of the donation entry divided by
  \<open>r\<close> differs from the amount the entry had before by less than \<open>1 / r\<close>, the donation
  being rounded to a whole number of the platform's currency; the two are equal when the
  absolute platform fee times \<open>r\<close> is a whole number.

  The bounds of \<open>2 ^ 52\<close> make the property one of the doubles of the source as well:
  the sum of line 512 is exact, and the product of line 487 is a double within a quarter of
  the exact product, which \<^verbatim>\<open>Math.round\<close> takes to a whole number less than 1 away from
  the exact product (it can be more than a half away: for a fee of 3 at the rate
  0.16666666666666666 the double product is 0.5 and the donation 1), and to the exact
  product when that is whole.
\<close>

theorem C5_conservation:
  assumes "hasFeesOnTop t"
    and "platformFeeInHostCurrency t = Some fee" and "fee < 0"
    and "fee \<in> \<int>" and "amount t \<in> \<int>"
    and "\<bar>fee\<bar> < 2 ^ 52" and "\<bar>amount t\<bar> < 2 ^ 52"
    and "or_else (hostCurrencyFxRate t) 1 = 1"
    and "getFxRate env (currency t) (platform_currency props) None = r" and "0 < r"
    and "Math_abs fee * r < 2 ^ 52"
    and "amountInHostCurrency t \<noteq> Some 0 \<or> falsy (paymentProcessorFeeInHostCurrency t)"
    and "findByPk env (FromCollectiveId t) = Some c"
  shows "\<exists>opp donation main.
      createFeesOnTopTransaction env props u rows t =
        Inr (rows @ [opp, donation], main, Some main) \<and>
      CollectiveId donation = Some (platform_CollectiveId props) \<and>
      currency donation = platform_currency props \<and>
      \<bar>amount main + amount donation / r - amount t\<bar> < 1 / r \<and>
      (Math_abs fee * r \<in> \<int> \<longrightarrow> amount main + amount donation / r = amount t)"
proof -
  define pf where
    "pf = donationProcessorFee fee (amountInHostCurrency t) (paymentProcessorFeeInHostCurrency t)"
  define D where "D = donationTransaction env props fee pf t"
  define P where "P = primaryTransaction u D"
  define opp where "opp = oppositeTransaction env c
              (or_else (netAmountInCollectiveCurrency D) (amount D))
              (or_else (hostCurrencyFxRate D) 1) P"
  define main where "main = withoutPlatformFee fee pf t"
  have abs_fee: "Math_abs fee = - fee" "0 < Math_abs fee"
    using assms(3) by (simp_all add: Math_abs_def)
  have amount_D: "amount D = Math_round (Math_abs fee * r)"
    using assms(9) by (simp add: D_def donation_fields)
  have "0 < Math_abs fee * r" using abs_fee(2) assms(10) by simp
  then have "0 \<le> \<lfloor>Math_abs fee * r + 1 / 2\<rfloor>" by simp
  then have pos: "\<not> amount D < 0" unfolding amount_D Math_round_def by simp
  have found: "findByPk env (FromCollectiveId D) = Some c"
    using assms(13) by (simp add: D_def donation_fields)
  from createDoubleEntry_rows [OF found, of u rows] pos obtain i j where
    r: "createDoubleEntry env u rows D =
          Inr (rows @ [opp\<lparr>row_id := Some j\<rparr>, P\<lparr>row_id := Some i\<rparr>], P\<lparr>row_id := Some i\<rparr>)"
    unfolding opp_def P_def by auto
  have nf: "\<not> falsy (platformFeeInHostCurrency t)"
    using assms(2,3) by (simp add: falsy_def)
  have finite: "\<not> (amountInHostCurrency t = Some 0 \<and>
      \<not> falsy (paymentProcessorFeeInHostCurrency t))"
    using assms(12) by blast
  have res: "createFeesOnTopTransaction env props u rows t =
      Inr (rows @ [opp\<lparr>row_id := Some j\<rparr>, P\<lparr>row_id := Some i\<rparr>], main, Some main)"
    unfolding createFeesOnTopTransaction_def Let_def
    using assms(1,2) nf finite r
    by (simp add: pf_def [symmetric] D_def [symmetric] main_def [symmetric])
  have d: "CollectiveId (P\<lparr>row_id := Some i\<rparr>) = Some (platform_CollectiveId props)"
    "currency (P\<lparr>row_id := Some i\<rparr>) = platform_currency props"
    by (simp_all add: P_def D_def primary_fields donation_fields)
  have donation: "amount (P\<lparr>row_id := Some i\<rparr>) = Math_round (Math_abs fee * r)"
    by (simp add: P_def primary_fields amount_D)
  have main_amount: "amount main = amount t + fee"
    using assms(8) by (simp add: main_def withoutPlatformFee_def)
  have diff: "amount main + amount (P\<lparr>row_id := Some i\<rparr>) / r - amount t =
      (Math_round (Math_abs fee * r) - Math_abs fee * r) / r"
    using assms(10) unfolding main_amount donation abs_fee(1)
    by (simp add: field_simps)
  have "\<bar>Math_round (Math_abs fee * r) - Math_abs fee * r\<bar> < 1"
    using Math_round_near [of "Math_abs fee * r"] by linarith
  then have "\<bar>(Math_round (Math_abs fee * r) - Math_abs fee * r) / r\<bar> < 1 / r"
    using assms(10) by (simp add: abs_divide divide_strict_right_mono)
  then have bound: "\<bar>amount main + amount (P\<lparr>row_id := Some i\<rparr>) / r - amount t\<bar> < 1 / r"
    unfolding diff .
  have exact: "Math_abs fee * r \<in> \<int> \<longrightarrow>
      amount main + amount (P\<lparr>row_id := Some i\<rparr>) / r = amount t"
  proof
    assume "Math_abs fee * r \<in> \<int>"
    then have "Math_round (Math_abs fee * r) - Math_abs fee * r = 0"
      by (simp add: Math_round_Ints)
    with diff show "amount main + amount (P\<lparr>row_id := Some i\<rparr>) / r = amount t" by simp
  qed
  from res d bound exact show ?thesis by blast
qed

text \<open>
  C5 on a contribution of 1000 yen at the rate of 1/128, where the donation is rounded and
  the two sides are less than 128 yen apart, and on a contribution in dollars at the rate
  of 1, where they are equal.
\<close>

theorem C5_conservation_witness:
  "(\<exists>opp donation main.
      createFeesOnTopTransaction example_ledger_env example_platform ''g'' [] yen_contribution =
        Inr ([] @ [opp, donation], main, Some main) \<and>
      CollectiveId donation = Some (platform_CollectiveId example_platform) \<and>
      currency donation = platform_currency example_platform \<and>
      \<bar>amount main + amount donation / (1 / 128) - amount yen_contribution\<bar> < 1 / (1 / 128)) \<and>
   (\<exists>opp donation main.
      createFeesOnTopTransaction example_ledger_env example_platform ''g'' [] dollar_contribution =
        Inr ([] @ [opp, donation], main, Some main) \<and>
      CollectiveId donation = Some (platform_CollectiveId example_platform) \<and>
      currency donation = platform_currency example_platform \<and>
      amount main + amount donation / 1 = amount dollar_contribution)"
proof -
  let ?c = "\<lparr>isActive = True, collective_currency = ''USD'',
             collective_HostCollectiveId = Some 30\<rparr>"
  have 1: "hasFeesOnTop yen_contribution" "hasFeesOnTop dollar_contribution"
    by (simp_all add: hasFeesOnTop_def yen_contribution_def dollar_contribution_def)
  have 2: "platformFeeInHostCurrency yen_contribution = Some (- 100)"
    "platformFeeInHostCurrency dollar_contribution = Some (- 100)"
    and 8: "or_else (hostCurrencyFxRate yen_contribution) 1 = 1"
    "or_else (hostCurrencyFxRate dollar_contribution) 1 = 1"
    and 12: "amountInHostCurrency yen_contribution \<noteq> Some 0 \<or>
             falsy (paymentProcessorFeeInHostCurrency yen_contribution)"
    "amountInHostCurrency dollar_contribution \<noteq> Some 0 \<or>
             falsy (paymentProcessorFeeInHostCurrency dollar_contribution)"
    by (simp_all add: yen_contribution_def dollar_contribution_def or_else_def)
  have 3: "(- 100 :: rat) < 0" and 4: "(- 100 :: rat) \<in> \<int>"
    and 6: "\<bar>- 100 :: rat\<bar> < 2 ^ 52" and 10: "(0 :: rat) < 1 / 128" "(0 :: rat) < 1"
    and 11: "Math_abs (- 100) * (1 / 128) < (2 ^ 52 :: rat)"
    "Math_abs (- 100) * 1 < (2 ^ 52 :: rat)"
    and whole: "Math_abs (- 100) * 1 \<in> \<int>"
    by (simp_all add: Math_abs_def)
  have 5: "amount yen_contribution \<in> \<int>" "amount dollar_contribution \<in> \<int>"
    and 7: "\<bar>amount yen_contribution\<bar> < 2 ^ 52" "\<bar>amount dollar_contribution\<bar> < 2 ^ 52"
    by (simp_all add: yen_contribution_def dollar_contribution_def)
  have 9: "getFxRate example_ledger_env (currency yen_contribution)
             (platform_currency example_platform) None = 1 / 128"
    "getFxRate example_ledger_env (currency dollar_contribution)
             (platform_currency example_platform) None = 1"
    by (simp_all add: example_ledger_env_def example_platform_def yen_contribution_def
          dollar_contribution_def)
  have 13: "findByPk example_ledger_env (FromCollectiveId yen_contribution) = Some ?c"
    "findByPk example_ledger_env (FromCollectiveId dollar_contribution) = Some ?c"
    by (simp_all add: findByPk_def example_ledger_env_def yen_contribution_def
          dollar_contribution_def)
  from C5_conservation [OF 1(1) 2(1) 3 4 5(1) 6 7(1) 8(1) 9(1) 10(1) 11(1) 12(1) 13(1),
      of "''g''" "[]"]
  have yen: "\<exists>opp donation main.
      createFeesOnTopTransaction example_ledger_env example_platform ''g'' [] yen_contribution =
        Inr ([] @ [opp, donation], main, Some main) \<and>
      CollectiveId donation = Some (platform_CollectiveId example_platform) \<and>
      currency donation = platform_currency example_platform \<and>
      \<bar>amount main + amount donation / (1 / 128) - amount yen_contribution\<bar> < 1 / (1 / 128)"
    by blast
  from C5_conservation [OF 1(2) 2(2) 3 4 5(2) 6 7(2) 8(2) 9(2) 10(2) 11(2) 12(2) 13(2),
      of "''g''" "[]"] whole
  have dollar: "\<exists>opp donation main.
      createFeesOnTopTransaction example_ledger_env example_platform ''g'' [] dollar_contribution =
        Inr ([] @ [opp, donation], main, Some main) \<and>
      CollectiveId donation = Some (platform_CollectiveId example_platform) \<and>
      currency donation = platform_currency example_platform \<and>
      amount main + amount donation / 1 = amount dollar_contribution"
    by blast
  from yen dollar show ?thesis by (intro conjI)
qed

text \<open>
  Claim C5 as the spec states it fails when the conversion rounds. A contribution of 1000
  yen with a platform fee of 100 on top, at a rate of 1/128 to the dollar: the donation
  entry has the amount \<open>Math.round(100 / 128) = 1\<close>, the main entry is left with 900, and
  900 plus the donation converted back (128) is 1028, not 1000. The rate is a double and
  the product of line 487 is exact, so the source computes these very amounts.
\<close>

theorem C5_counterexample:
  "hasFeesOnTop yen_contribution \<and>
   platformFeeInHostCurrency yen_contribution = Some (- 100) \<and>
   amount yen_contribution = 1000 \<and>
   CollectiveId
     (split_rows (createFeesOnTopTransaction example_ledger_env example_platform ''g'' []
        yen_contribution) ! 1) = Some (platform_CollectiveId example_platform) \<and>
   amount
     (split_rows (createFeesOnTopTransaction example_ledger_env example_platform ''g'' []
        yen_contribution) ! 1) = 1 \<and>
   amount
     (main_after (createFeesOnTopTransaction example_ledger_env example_platform ''g'' []
        yen_contribution) yen_contribution) = 900 \<and>
   amount
     (main_after (createFeesOnTopTransaction example_ledger_env example_platform ''g'' []
        yen_contribution) yen_contribution)
   + amount
       (split_rows (createFeesOnTopTransaction example_ledger_env example_platform ''g'' []
          yen_contribution) ! 1)
     / getFxRate example_ledger_env (currency yen_contribution)
         (platform_currency example_platform) None
   = 1028"
  by (simp add: split_rows_def main_after_def createFeesOnTopTransaction_def hasFeesOnTop_def
        falsy_def donationTransaction_def donationProcessorFee_def withoutPlatformFee_def
        toNegative_def Math_abs_def
        createDoubleEntry_def primaryTransaction_def oppositeTransaction_def
        findByPk_def example_ledger_env_def example_platform_def
        yen_contribution_def dollar_contribution_def
        Transaction_create_def or_else_def Math_round_def Let_def)

text \<open>
  Claim C6, amended. On an entry that is not flagged the splitter throws the error
  \<^verbatim>\<open>This transaction does not have fees on top\<close>. On a flagged entry whose platform fee
  is zero or unset it creates no row, leaves the entry as it is and returns nothing
  (\<^verbatim>\<open>undefined\<close>).
\<close>

theorem C6_guards:
  "(\<not> hasFeesOnTop t \<longrightarrow>
      createFeesOnTopTransaction env props u rows t =
        Inl (Error ''This transaction does not have fees on top'')) \<and>
   (hasFeesOnTop t \<and> falsy (platformFeeInHostCurrency t) \<longrightarrow>
      createFeesOnTopTransaction env props u rows t = Inr (rows, t, None))"
  by (simp add: createFeesOnTopTransaction_def)

text \<open>C6 on an expense, which is not flagged, and on a flagged contribution with a fee of zero.\<close>

theorem C6_guards_witness:
  "createFeesOnTopTransaction example_ledger_env example_platform ''g'' [] expense_intent =
     Inl (Error ''This transaction does not have fees on top'') \<and>
   createFeesOnTopTransaction example_ledger_env example_platform ''g'' [] zero_fee_contribution =
     Inr ([], zero_fee_contribution, None)"
proof -
  have 1: "\<not> hasFeesOnTop expense_intent"
    by (simp add: hasFeesOnTop_def expense_intent_def)
  have 2: "hasFeesOnTop zero_fee_contribution \<and> falsy (platformFeeInHostCurrency zero_fee_contribution)"
    by (simp add: hasFeesOnTop_def falsy_def zero_fee_contribution_def dollar_contribution_def)
  from 1 C6_guards [of expense_intent example_ledger_env example_platform "''g''" "[]"]
  have a: "createFeesOnTopTransaction example_ledger_env example_platform ''g'' [] expense_intent =
     Inl (Error ''This transaction does not have fees on top'')" by blast
  from 2 C6_guards [of zero_fee_contribution example_ledger_env example_platform "''g''" "[]"]
  have b: "createFeesOnTopTransaction example_ledger_env example_platform ''g'' [] zero_fee_contribution =
     Inr ([], zero_fee_contribution, None)" by blast
  from a b show ?thesis by (rule conjI)
qed

text \<open>
  Claim C6 as the spec states it fails on the value returned: on a flagged contribution
  with a platform fee of zero, line 472 returns \<^verbatim>\<open>undefined\<close>, not the entry.
\<close>

theorem C6_counterexample:
  "hasFeesOnTop zero_fee_contribution \<and>
   platformFeeInHostCurrency zero_fee_contribution = Some 0 \<and>
   createFeesOnTopTransaction example_ledger_env example_platform ''g'' [] zero_fee_contribution =
     Inr ([], zero_fee_contribution, None) \<and>
   createFeesOnTopTransaction example_ledger_env example_platform ''g'' [] zero_fee_contribution \<noteq>
     Inr ([], zero_fee_contribution, Some zero_fee_contribution)"
  by (simp add: createFeesOnTopTransaction_def hasFeesOnTop_def falsy_def
        zero_fee_contribution_def dollar_contribution_def)

section \<open>Properties of the expenses\<close>




lemma Number_toString_examples:
  "Number_toString 9999 = ''9999''" "Number_toString 10000 = ''10000''"
  "Number_toString 10050 = ''10050''" "Number_toString 100 = ''100''"
  "Number_toString 1 = ''1''" "Number_toString 5000 = ''5000''"
  "Number_toString 4500 = ''4500''"
  by (simp_all add: Number_toString_def digits.simps)



text \<open>
  Claim C7, amended. For every expense whose status is \<open>PAID\<close>, \<^verbatim>\<open>payExpense\<close> fails
  and leaves the state as it is (no ledger entry, no change of status); for a logged-in
  user who may use expenses the error is \<open>Unauthorized\<close> with the message
  \<^verbatim>\<open>Expense has already been paid\<close>. For a \<open>PENDING\<close> or \<open>REJECTED\<close> expense it fails
  in the same way with a message that names the status. For every expense whose status
  is \<open>PENDING\<close>, \<^verbatim>\<open>markExpenseAsUnpaid\<close> fails and leaves the state as it is; for a
  logged-in user who may use expenses and passes \<^verbatim>\<open>canMarkAsUnpaid\<close> the error is
  \<open>Unauthorized\<close> with the message \<^verbatim>\<open>Expense has not been paid yet\<close>.
\<close>

theorem C7_guards:
  "(expenses s (args_id args) = Some e \<and> status e = PAID \<longrightarrow>
      (\<exists>err. payExpense env s req args = (s, Inl err)) \<and>
      (\<forall>user. remoteUser req = Some user \<and> canUseFeature env user \<longrightarrow>
         payExpense env s req args = (s, Inl (Unauthorized ''Expense has already been paid'')))) \<and>
   (expenses s (args_id args) = Some e \<and> (status e = PENDING \<or> status e = REJECTED) \<longrightarrow>
      (\<exists>err. payExpense env s req args = (s, Inl err)) \<and>
      (\<forall>user. remoteUser req = Some user \<and> canUseFeature env user \<longrightarrow>
         payExpense env s req args =
           (s, Inl (Unauthorized
              (''Expense needs to be approved. Current status of the expense: ''
               @ status_name (status e) @ ''.''))))) \<and>
   (expenses s expenseId = Some e' \<and> status e' = PENDING \<longrightarrow>
      (\<exists>err. markExpenseAsUnpaid env s req expenseId refunded = (s, Inl err)) \<and>
      (\<forall>user. remoteUser req = Some user \<and> canUseFeature env user \<and>
           canMarkAsUnpaid env req e' \<longrightarrow>
         markExpenseAsUnpaid env s req expenseId refunded =
           (s, Inl (Unauthorized ''Expense has not been paid yet''))))"
proof -
  have paid: "expenses s (args_id args) = Some e \<and> status e = PAID \<longrightarrow>
      (\<exists>err. payExpense env s req args = (s, Inl err)) \<and>
      (\<forall>user. remoteUser req = Some user \<and> canUseFeature env user \<longrightarrow>
         payExpense env s req args = (s, Inl (Unauthorized ''Expense has already been paid'')))"
    by (auto simp add: payExpense_def split: option.splits)
  have other: "expenses s (args_id args) = Some e \<and> (status e = PENDING \<or> status e = REJECTED) \<longrightarrow>
      (\<exists>err. payExpense env s req args = (s, Inl err)) \<and>
      (\<forall>user. remoteUser req = Some user \<and> canUseFeature env user \<longrightarrow>
         payExpense env s req args =
           (s, Inl (Unauthorized
              (''Expense needs to be approved. Current status of the expense: ''
               @ status_name (status e) @ ''.''))))"
    by (auto simp add: payExpense_def split: option.splits)
  have pending: "expenses s expenseId = Some e' \<and> status e' = PENDING \<longrightarrow>
      (\<exists>err. markExpenseAsUnpaid env s req expenseId refunded = (s, Inl err)) \<and>
      (\<forall>user. remoteUser req = Some user \<and> canUseFeature env user \<and>
           canMarkAsUnpaid env req e' \<longrightarrow>
         markExpenseAsUnpaid env s req expenseId refunded =
           (s, Inl (Unauthorized ''Expense has not been paid yet'')))"
    by (auto simp add: markExpenseAsUnpaid_def split: option.splits)
  from paid other pending show ?thesis by (intro conjI)
qed

text \<open>C7 on the paid expense 1 and the pending expense 2.\<close>

theorem C7_guards_witness:
  "payExpense example_expense_env example_state logged_in (pay 1) =
     (example_state, Inl (Unauthorized ''Expense has already been paid'')) \<and>
   payExpense example_expense_env example_state logged_in (pay 2) =
     (example_state,
      Inl (Unauthorized ''Expense needs to be approved. Current status of the expense: PENDING.'')) \<and>
   markExpenseAsUnpaid example_expense_env example_state logged_in 2 False =
     (example_state, Inl (Unauthorized ''Expense has not been paid yet''))"
proof -
  have user: "remoteUser logged_in = Some 7 \<and> canUseFeature example_expense_env 7"
    by (simp add: logged_in_def example_expense_env_def)
  have 1: "expenses example_state (args_id (pay 1)) = Some (example_expense 1 PAID) \<and>
           status (example_expense 1 PAID) = PAID"
    by (simp add: example_state_def example_expense_def pay_def)
  have 2: "expenses example_state (args_id (pay 2)) = Some (example_expense 2 PENDING) \<and>
           (status (example_expense 2 PENDING) = PENDING \<or>
            status (example_expense 2 PENDING) = REJECTED)"
    by (simp add: example_state_def example_expense_def pay_def)
  have 3: "expenses example_state 2 = Some (example_expense 2 PENDING) \<and>
           status (example_expense 2 PENDING) = PENDING"
    by (simp add: example_state_def example_expense_def)
  have 4: "canMarkAsUnpaid example_expense_env logged_in (example_expense 2 PENDING)"
    by (simp add: example_expense_env_def)
  have n: "status_name (status (example_expense 2 PENDING)) = ''PENDING''"
    by (simp add: example_expense_def)
  from C7_guards [where s = example_state and args = "pay 1" and e = "example_expense 1 PAID"
      and env = example_expense_env and req = logged_in]
    1 user
  have a: "payExpense example_expense_env example_state logged_in (pay 1) =
     (example_state, Inl (Unauthorized ''Expense has already been paid''))"
    by blast
  from C7_guards [where s = example_state and args = "pay 2" and e = "example_expense 2 PENDING"
      and env = example_expense_env and req = logged_in] 2 user
  have "payExpense example_expense_env example_state logged_in (pay 2) =
     (example_state,
      Inl (Unauthorized
        (''Expense needs to be approved. Current status of the expense: ''
         @ status_name (status (example_expense 2 PENDING)) @ ''.'')))"
    by blast
  then have b: "payExpense example_expense_env example_state logged_in (pay 2) =
     (example_state,
      Inl (Unauthorized ''Expense needs to be approved. Current status of the expense: PENDING.''))"
    by (simp add: n)
  from C7_guards [where s = example_state and expenseId = 2 and e' = "example_expense 2 PENDING"
      and env = example_expense_env and req = logged_in and refunded = False] 3 4 user
  have c: "markExpenseAsUnpaid example_expense_env example_state logged_in 2 False =
     (example_state, Inl (Unauthorized ''Expense has not been paid yet''))"
    by blast
  from a b c show ?thesis by (intro conjI)
qed

text \<open>
  Claim C7 as the spec states it fails on the error: the status is not what every failure
  is about. \<^verbatim>\<open>markExpenseAsUnpaid\<close> checks the permission before the status, so on the
  pending expense 2 a user without the permission gets the permission error; and
  \<^verbatim>\<open>payExpense\<close> on the paid expense 1 without a user gets the login error.
\<close>

theorem C7_counterexample:
  "status (example_expense 2 PENDING) = PENDING \<and>
   expenses example_state 2 = Some (example_expense 2 PENDING) \<and>
   markExpenseAsUnpaid (example_expense_env\<lparr>canMarkAsUnpaid := (\<lambda>req expense. False)\<rparr>)
       example_state logged_in 2 False =
     (example_state,
      Inl (Unauthorized ''You don't have permission to mark this expense as unpaid'')) \<and>
   status (example_expense 1 PAID) = PAID \<and>
   expenses example_state 1 = Some (example_expense 1 PAID) \<and>
   payExpense example_expense_env example_state \<lparr>remoteUser = None\<rparr> (pay 1) =
     (example_state, Inl (Unauthorized ''You need to be logged in to pay an expense''))"
  by (simp add: markExpenseAsUnpaid_def payExpense_def example_state_def example_expense_def
        example_expense_env_def logged_in_def pay_def)

text \<open>
  Claim C8, amended. For every approved expense, \<^verbatim>\<open>payExpense\<close> fails and leaves the
  state as it is (no ledger entry) when the balance of the collective is less than the
  amount of the expense; and when the balance covers the amount but is less than the amount
  plus the payment processor fee, where the host of the collective is found, the estimate
  of the fee succeeds, and the fee (zero when it is unset) is a whole number, it and the
  amount below \<open>2 ^ 52\<close> in absolute value (the sum of line 659 is then exact in
  doubles). For a
  logged-in user who may use expenses and may pay the expense, the error is, in both cases,
  the plain \<open>Error\<close> \<^verbatim>\<open>"In kind" donations are not supported anymore\<close> of line 613
  when the legacy payout method of the expense is \<^verbatim>\<open>donation\<close>. Otherwise it is, in
  the first case, \<open>Unauthorized\<close> with a message that gives the balance and the amount,
  and in the second a plain \<open>Error\<close> with a message that gives the balance, the amount
  and the estimated fee, each as \<^verbatim>\<open>formatCurrency\<close> prints it. No message gives the
  shortfall.
\<close>

theorem C8_insufficient_funds:
  assumes "expenses s (args_id args) = Some e" and "status e = APPROVED"
    and "getBalance env (ledger s) (collective e) = balance"
  shows "(balance < expense_amount e \<longrightarrow>
      (\<exists>err. payExpense env s req args = (s, Inl err)) \<and>
      (\<forall>user. remoteUser req = Some user \<and> canUseFeature env user \<and>
           canPayExpense env req e \<longrightarrow>
         payExpense env s req args =
           (s, Inl (if legacyPayoutMethod e = ''donation'' then Error in_kind_message
                    else Unauthorized
              (''You don't have enough funds to pay this expense. Current balance: ''
               @ formatCurrency env (of_int balance) (account_currency (collective e))
               @ '', Expense amount: ''
               @ formatCurrency env (of_int (expense_amount e))
                   (account_currency (collective e))))))) \<and>
    (\<forall>host fee.
       expense_amount e \<le> balance \<and>
       getHostCollective env (collective e) = Some host \<and>
       estimatedFee env host e args (getPayoutMethod env e) (payoutMethodTypeOf env e)
         (getFxRate env (account_currency (collective e)) (account_currency host) None) = Inr fee \<and>
       or_else fee 0 \<in> \<int> \<and> \<bar>or_else fee 0\<bar> < 2 ^ 52 \<and> \<bar>expense_amount e\<bar> < 2 ^ 52 \<and>
       of_int balance < of_int (expense_amount e) + or_else fee 0 \<longrightarrow>
      (\<exists>err. payExpense env s req args = (s, Inl err)) \<and>
      (\<forall>user. remoteUser req = Some user \<and> canUseFeature env user \<and>
           canPayExpense env req e \<longrightarrow>
         payExpense env s req args =
           (s, Inl (Error (if legacyPayoutMethod e = ''donation'' then in_kind_message
              else
              (''You don't have enough funds to cover for the fees of this payment method. Current balance: ''
               @ formatCurrency env (of_int balance) (account_currency (collective e))
               @ '', Expense amount: ''
               @ formatCurrency env (of_int (expense_amount e)) (account_currency (collective e))
               @ '', Estimated '' @ payout_type_name (payoutMethodTypeOf env e)
               @ '' fees: ''
               @ formatCurrency env (or_else fee 0) (account_currency (collective e))))))))"
proof -
  have first: "balance < expense_amount e \<longrightarrow>
      (\<exists>err. payExpense env s req args = (s, Inl err)) \<and>
      (\<forall>user. remoteUser req = Some user \<and> canUseFeature env user \<and>
           canPayExpense env req e \<longrightarrow>
         payExpense env s req args =
           (s, Inl (if legacyPayoutMethod e = ''donation'' then Error in_kind_message
                    else Unauthorized
              (''You don't have enough funds to pay this expense. Current balance: ''
               @ formatCurrency env (of_int balance) (account_currency (collective e))
               @ '', Expense amount: ''
               @ formatCurrency env (of_int (expense_amount e))
                   (account_currency (collective e))))))"
    using assms
    by (auto simp add: payExpense_def payExpense_funds_def Let_def split: option.splits)
  have second: "\<forall>host fee.
       expense_amount e \<le> balance \<and>
       getHostCollective env (collective e) = Some host \<and>
       estimatedFee env host e args (getPayoutMethod env e) (payoutMethodTypeOf env e)
         (getFxRate env (account_currency (collective e)) (account_currency host) None) = Inr fee \<and>
       or_else fee 0 \<in> \<int> \<and> \<bar>or_else fee 0\<bar> < 2 ^ 52 \<and> \<bar>expense_amount e\<bar> < 2 ^ 52 \<and>
       of_int balance < of_int (expense_amount e) + or_else fee 0 \<longrightarrow>
      (\<exists>err. payExpense env s req args = (s, Inl err)) \<and>
      (\<forall>user. remoteUser req = Some user \<and> canUseFeature env user \<and>
           canPayExpense env req e \<longrightarrow>
         payExpense env s req args =
           (s, Inl (Error (if legacyPayoutMethod e = ''donation'' then in_kind_message
              else
              (''You don't have enough funds to cover for the fees of this payment method. Current balance: ''
               @ formatCurrency env (of_int balance) (account_currency (collective e))
               @ '', Expense amount: ''
               @ formatCurrency env (of_int (expense_amount e)) (account_currency (collective e))
               @ '', Estimated '' @ payout_type_name (payoutMethodTypeOf env e)
               @ '' fees: ''
               @ formatCurrency env (or_else fee 0) (account_currency (collective e)))))))"
    using assms
    by (auto simp add: payExpense_def payExpense_funds_def Let_def split: option.splits)
  from first second show ?thesis by (intro conjI)
qed


text \<open>
  C8 on the approved expense 3 of 10000 cents: with a balance of 9999; with a balance of
  10050 and a fee of 100; and, with a balance of 9999, as a legacy in-kind donation.
\<close>

theorem C8_insufficient_funds_witness:
  "payExpense example_expense_env example_state logged_in (pay 3) =
     (example_state,
      Inl (Unauthorized
        ''You don't have enough funds to pay this expense. Current balance: 9999 USD, Expense amount: 10000 USD'')) \<and>
   payExpense (example_expense_env\<lparr>getBalance := (\<lambda>rows a. 10050)\<rparr>) example_state logged_in
       ((pay 3)\<lparr>paymentProcessorFeeInCollectiveCurrency := Some 100\<rparr>) =
     (example_state,
      Inl (Error
        ''You don't have enough funds to cover for the fees of this payment method. Current balance: 10050 USD, Expense amount: 10000 USD, Estimated OTHER fees: 100 USD'')) \<and>
   payExpense example_expense_env in_kind_state logged_in (pay 3) =
     (in_kind_state, Inl (Error in_kind_message))"
proof -
  let ?e = "example_expense 3 APPROVED"
  let ?env = "example_expense_env\<lparr>getBalance := (\<lambda>rows a. 10050)\<rparr>"
  let ?args = "(pay 3)\<lparr>paymentProcessorFeeInCollectiveCurrency := Some 100\<rparr>"
  let ?host = "\<lparr>account_id = 30, account_currency = ''USD''\<rparr>"
  have e: "expenses example_state (args_id (pay 3)) = Some ?e"
    "expenses example_state (args_id ?args) = Some ?e" "status ?e = APPROVED"
    by (simp_all add: example_state_def example_expense_def pay_def)
  have k: "expenses in_kind_state (args_id (pay 3)) = Some in_kind_expense"
    "status in_kind_expense = APPROVED"
    "getBalance example_expense_env (ledger in_kind_state) (collective in_kind_expense) = 9999"
    by (simp_all add: in_kind_state_def in_kind_expense_def example_expense_def pay_def
          example_expense_env_def)
  have b: "getBalance example_expense_env (ledger example_state) (collective ?e) = 9999"
    "getBalance ?env (ledger example_state) (collective ?e) = 10050"
    by (simp_all add: example_expense_env_def)
  have user: "remoteUser logged_in = Some 7 \<and> canUseFeature example_expense_env 7 \<and>
      canPayExpense example_expense_env logged_in ?e"
    "remoteUser logged_in = Some 7 \<and> canUseFeature ?env 7 \<and> canPayExpense ?env logged_in ?e"
    "remoteUser logged_in = Some 7 \<and> canUseFeature example_expense_env 7 \<and>
      canPayExpense example_expense_env logged_in in_kind_expense"
    by (simp_all add: logged_in_def example_expense_env_def)
  have manual: "legacyPayoutMethod ?e \<noteq> ''donation''"
    "legacyPayoutMethod in_kind_expense = ''donation''"
    by (simp_all add: example_expense_def in_kind_expense_def)
  have low: "(9999 :: int) < expense_amount ?e" "(9999 :: int) < expense_amount in_kind_expense"
    by (simp_all add: example_expense_def in_kind_expense_def)
  have fee: "expense_amount ?e \<le> 10050 \<and>
       getHostCollective ?env (collective ?e) = Some ?host \<and>
       estimatedFee ?env ?host ?e ?args (getPayoutMethod ?env ?e) (payoutMethodTypeOf ?env ?e)
         (getFxRate ?env (account_currency (collective ?e)) (account_currency ?host) None) =
         Inr (Some 100) \<and>
       or_else (Some 100) 0 \<in> \<int> \<and> \<bar>or_else (Some 100) 0\<bar> < 2 ^ 52 \<and>
       \<bar>expense_amount ?e\<bar> < 2 ^ 52 \<and>
       of_int 10050 < of_int (expense_amount ?e) + or_else (Some 100) 0"
    by (simp add: example_expense_def example_expense_env_def estimatedFee_def
          payoutMethodTypeOf_def pay_def or_else_def)
  have fmt: "formatCurrency example_expense_env (of_int 9999) (account_currency (collective ?e)) =
      ''9999 USD''"
    "formatCurrency example_expense_env (of_int (expense_amount ?e))
       (account_currency (collective ?e)) = ''10000 USD''"
    "formatCurrency ?env (of_int 10050) (account_currency (collective ?e)) = ''10050 USD''"
    "formatCurrency ?env (of_int (expense_amount ?e)) (account_currency (collective ?e)) =
       ''10000 USD''"
    "formatCurrency ?env (or_else (Some 100) 0) (account_currency (collective ?e)) = ''100 USD''"
    "payout_type_name (payoutMethodTypeOf ?env ?e) = ''OTHER''"
    by (simp_all add: example_expense_env_def example_expense_def payoutMethodTypeOf_def
          or_else_def Number_toString_examples)
  from C8_insufficient_funds [OF e(1) e(3) b(1), of logged_in] low(1) user(1)
  have "payExpense example_expense_env example_state logged_in (pay 3) =
      (example_state,
       Inl (if legacyPayoutMethod ?e = ''donation'' then Error in_kind_message
            else Unauthorized
          (''You don't have enough funds to pay this expense. Current balance: ''
           @ formatCurrency example_expense_env (of_int 9999) (account_currency (collective ?e))
           @ '', Expense amount: ''
           @ formatCurrency example_expense_env (of_int (expense_amount ?e))
               (account_currency (collective ?e)))))"
    by blast
  then have first: "payExpense example_expense_env example_state logged_in (pay 3) =
     (example_state,
      Inl (Unauthorized
        ''You don't have enough funds to pay this expense. Current balance: 9999 USD, Expense amount: 10000 USD''))"
    unfolding fmt if_not_P [OF manual(1)] by simp
  from C8_insufficient_funds [OF e(2) e(3) b(2), of logged_in] fee user(2)
  have "payExpense ?env example_state logged_in ?args =
      (example_state,
       Inl (Error (if legacyPayoutMethod ?e = ''donation'' then in_kind_message else
          (''You don't have enough funds to cover for the fees of this payment method. Current balance: ''
           @ formatCurrency ?env (of_int 10050) (account_currency (collective ?e))
           @ '', Expense amount: ''
           @ formatCurrency ?env (of_int (expense_amount ?e)) (account_currency (collective ?e))
           @ '', Estimated '' @ payout_type_name (payoutMethodTypeOf ?env ?e)
           @ '' fees: ''
           @ formatCurrency ?env (or_else (Some 100) 0) (account_currency (collective ?e))))))"
    by blast
  then have second: "payExpense ?env example_state logged_in ?args =
     (example_state,
      Inl (Error
        ''You don't have enough funds to cover for the fees of this payment method. Current balance: 10050 USD, Expense amount: 10000 USD, Estimated OTHER fees: 100 USD''))"
    unfolding fmt if_not_P [OF manual(1)] by simp
  from C8_insufficient_funds [OF k(1) k(2) k(3), of logged_in] low(2) user(3)
  have "payExpense example_expense_env in_kind_state logged_in (pay 3) =
      (in_kind_state,
       Inl (if legacyPayoutMethod in_kind_expense = ''donation'' then Error in_kind_message
            else Unauthorized
          (''You don't have enough funds to pay this expense. Current balance: ''
           @ formatCurrency example_expense_env (of_int 9999)
               (account_currency (collective in_kind_expense))
           @ '', Expense amount: ''
           @ formatCurrency example_expense_env (of_int (expense_amount in_kind_expense))
               (account_currency (collective in_kind_expense)))))"
    by blast
  then have third: "payExpense example_expense_env in_kind_state logged_in (pay 3) =
     (in_kind_state, Inl (Error in_kind_message))"
    unfolding if_P [OF manual(2)] .
  from first second third show ?thesis by (intro conjI)
qed

text \<open>The message of the first error does not hold the shortfall of one cent.\<close>

lemma shortfall_not_in_message:
  "\<not> sublist ''1 USD''
     ''You don't have enough funds to pay this expense. Current balance: 9999 USD, Expense amount: 10000 USD''"
  by code_simp

text \<open>\<^verbatim>\<open>payExpense\<close> up to the check of the balance.\<close>

lemma payExpense_funds_checked:
  assumes "remoteUser req = Some user" and "canUseFeature env user"
    and "expenses s (args_id args) = Some e" and "status e = APPROVED"
    and "canPayExpense env req e"
  shows "payExpense env s req args = payExpense_funds env s user e args"
  using assms by (simp add: payExpense_def)

lemma payExpense_funds_low_balance:
  assumes "legacyPayoutMethod e \<noteq> ''donation''"
    and "getBalance env (ledger s) (collective e) = balance"
    and "balance < expense_amount e"
  shows "payExpense_funds env s user e args =
    (s, Inl (Unauthorized
       (''You don't have enough funds to pay this expense. Current balance: ''
        @ formatCurrency env (of_int balance) (account_currency (collective e))
        @ '', Expense amount: ''
        @ formatCurrency env (of_int (expense_amount e)) (account_currency (collective e)))))"
  using assms by (simp add: payExpense_funds_def Let_def)

text \<open>
  Claim C8 as the spec states it fails on the message. For the approved expense of 10000
  cents and a balance of 9999 the error is \<open>Unauthorized\<close> and its message gives the
  balance and the amount; the shortfall, one cent, is computed nowhere and is not in the
  message.
\<close>

theorem C8_counterexample:
  "status (example_expense 3 APPROVED) = APPROVED \<and>
   expense_amount (example_expense 3 APPROVED) = 10000 \<and>
   getBalance example_expense_env (ledger example_state)
     (collective (example_expense 3 APPROVED)) = 9999 \<and>
   payExpense example_expense_env example_state logged_in (pay 3) =
     (example_state,
      Inl (Unauthorized
        ''You don't have enough funds to pay this expense. Current balance: 9999 USD, Expense amount: 10000 USD'')) \<and>
   formatCurrency example_expense_env (10000 - 9999) ''USD'' = ''1 USD'' \<and>
   \<not> sublist ''1 USD''
     ''You don't have enough funds to pay this expense. Current balance: 9999 USD, Expense amount: 10000 USD''"
proof -
  have pay3: "payExpense example_expense_env example_state logged_in (pay 3) =
     (example_state,
      Inl (Unauthorized
        ''You don't have enough funds to pay this expense. Current balance: 9999 USD, Expense amount: 10000 USD''))"
  proof -
    let ?e = "example_expense 3 APPROVED"
    have 1: "remoteUser logged_in = Some 7" "canUseFeature example_expense_env 7"
      "expenses example_state (args_id (pay 3)) = Some ?e" "status ?e = APPROVED"
      "canPayExpense example_expense_env logged_in ?e"
      by (simp_all add: logged_in_def example_expense_env_def example_state_def
            example_expense_def pay_def)
    have 2: "legacyPayoutMethod ?e \<noteq> ''donation''"
      "getBalance example_expense_env (ledger example_state) (collective ?e) = 9999"
      "(9999 :: int) < expense_amount ?e"
      by (simp_all add: example_expense_env_def example_expense_def)
    have 3: "formatCurrency example_expense_env (of_int 9999) (account_currency (collective ?e)) =
        ''9999 USD''"
      "formatCurrency example_expense_env (of_int (expense_amount ?e))
         (account_currency (collective ?e)) = ''10000 USD''"
      by (simp_all add: example_expense_env_def example_expense_def Number_toString_examples)
    show ?thesis
      unfolding payExpense_funds_checked [OF 1] payExpense_funds_low_balance [OF 2] 3 by simp
  qed
  have rest: "status (example_expense 3 APPROVED) = APPROVED"
    "expense_amount (example_expense 3 APPROVED) = 10000"
    "getBalance example_expense_env (ledger example_state)
       (collective (example_expense 3 APPROVED)) = 9999"
    "formatCurrency example_expense_env (10000 - 9999) ''USD'' = ''1 USD''"
    by (simp_all add: example_expense_def example_expense_env_def Number_toString_examples)
  from rest pay3 shortfall_not_in_message show ?thesis by (intro conjI)
qed




text \<open>
  Claim C10. For every expense whose status is \<open>PROCESSING\<close>, \<^verbatim>\<open>updateExpenseStatus\<close>
  fails for every requested status and leaves the state as it is; for a logged-in user
  who may use expenses and a status that exists, the error is the one of line 46. The
  permission check \<^verbatim>\<open>canUpdateExpenseStatus\<close> has no part in the result.
\<close>

theorem C10_processing:
  assumes "expenses s expenseId = Some e" and "status e = PROCESSING"
  shows "(\<exists>err. updateExpenseStatus env s req expenseId requested = (s, Inl err)) \<and>
    (\<forall>user. remoteUser req = Some user \<and> canUseFeature env user \<and>
        status_of_name requested \<noteq> None \<longrightarrow>
      updateExpenseStatus env s req expenseId requested =
        (s, Inl (Unauthorized ''You can't update the status of an expense being processed''))) \<and>
    updateExpenseStatus (env\<lparr>canUpdateExpenseStatus := permission\<rparr>) s req expenseId requested =
      updateExpenseStatus env s req expenseId requested"
  using assms
  by (auto simp add: updateExpenseStatus_def split: option.splits)

text \<open>C10 on the expense 4, for the statuses \<open>PAID\<close>, \<open>APPROVED\<close> and \<open>REJECTED\<close>.\<close>

theorem C10_processing_witness:
  "updateExpenseStatus example_expense_env example_state logged_in 4 ''PAID'' =
     (example_state, Inl (Unauthorized ''You can't update the status of an expense being processed'')) \<and>
   updateExpenseStatus example_expense_env example_state logged_in 4 ''APPROVED'' =
     (example_state, Inl (Unauthorized ''You can't update the status of an expense being processed'')) \<and>
   updateExpenseStatus example_expense_env example_state logged_in 4 ''REJECTED'' =
     (example_state, Inl (Unauthorized ''You can't update the status of an expense being processed''))"
proof -
  have 1: "expenses example_state 4 = Some (example_expense 4 PROCESSING)"
    by (simp add: example_state_def)
  have 2: "status (example_expense 4 PROCESSING) = PROCESSING"
    by (simp add: example_expense_def)
  have 3: "remoteUser logged_in = Some 7 \<and> canUseFeature example_expense_env 7"
    by (simp add: logged_in_def example_expense_env_def)
  have 4: "status_of_name ''PAID'' \<noteq> None" "status_of_name ''APPROVED'' \<noteq> None"
    "status_of_name ''REJECTED'' \<noteq> None"
    by (simp_all add: status_of_name_def)
  from C10_processing [OF 1 2, of example_expense_env logged_in "''PAID''"] 3 4(1)
  have a: "updateExpenseStatus example_expense_env example_state logged_in 4 ''PAID'' =
     (example_state, Inl (Unauthorized ''You can't update the status of an expense being processed''))"
    by blast
  from C10_processing [OF 1 2, of example_expense_env logged_in "''APPROVED''"] 3 4(2)
  have b: "updateExpenseStatus example_expense_env example_state logged_in 4 ''APPROVED'' =
     (example_state, Inl (Unauthorized ''You can't update the status of an expense being processed''))"
    by blast
  from C10_processing [OF 1 2, of example_expense_env logged_in "''REJECTED''"] 3 4(3)
  have c: "updateExpenseStatus example_expense_env example_state logged_in 4 ''REJECTED'' =
     (example_state, Inl (Unauthorized ''You can't update the status of an expense being processed''))"
    by blast
  from a b c show ?thesis by blast
qed

end
